theory Spec2Isabelle
  imports Complex_Main
begin

section \<open>JavaScript values and string helpers\<close>

text \<open>
  Strings are lists of characters. The claims only depend on the ASCII letters of the
  extensions \<open>xlsx\<close>, \<open>xls\<close>, \<open>ods\<close>, \<open>csv\<close>; no character outside ASCII is
  mapped to one of these letters by \<open>toLowerCase\<close> or by a case-insensitive regular
  expression without the \<open>u\<close> flag, so \<open>toLowerCase\<close> is modelled on \<open>A\<close>..\<open>Z\<close>.
\<close>

definition lower_char :: "char \<Rightarrow> char" where
  "lower_char c =
     (let n = (of_char c :: nat) in if 65 \<le> n \<and> n \<le> 90 then char_of (n + 32) else c)"

definition toLowerCase :: "string \<Rightarrow> string" where
  "toLowerCase s = map lower_char s"

text \<open>\<open>s.split(d)\<close>: the pieces of \<open>s\<close> between the occurrences of \<open>d\<close>; never an empty array.\<close>

fun split :: "char \<Rightarrow> string \<Rightarrow> string list" where
  "split d [] = [[]]"
| "split d (c # cs) =
     (if c = d then [] # split d cs
      else (case split d cs of [] \<Rightarrow> [[c]] | w # ws \<Rightarrow> (c # w) # ws))"

text \<open>\<open>a.pop()\<close>: the last element, \<open>undefined\<close> (here \<open>None\<close>) on an empty array.\<close>

definition pop :: "'a list \<Rightarrow> 'a option" where
  "pop xs = (if xs = [] then None else Some (last xs))"

text \<open>\<open>name.split('.').pop()?.toLowerCase() || ''\<close>, as both source files compute it.\<close>

definition ext_of :: "string \<Rightarrow> string" where
  "ext_of name =
     (case pop (split (CHR ''.'') name) of
        None \<Rightarrow> []
      | Some s \<Rightarrow> (if toLowerCase s = [] then [] else toLowerCase s))"

definition startsWith :: "string \<Rightarrow> string \<Rightarrow> bool" where
  "startsWith s p = (take (length p) s = p)"

text \<open>A number inside a template literal: its decimal digits, with a sign when negative.\<close>

definition digit_char :: "nat \<Rightarrow> char" where
  "digit_char d = char_of (of_char (CHR ''0'') + d)"

fun decimal :: "nat \<Rightarrow> string" where
  "decimal n = (if 10 \<le> n then decimal (n div 10) else []) @ [digit_char (n mod 10)]"

declare decimal.simps [simp del]

definition number_to_string :: "int \<Rightarrow> string" where
  "number_to_string i = (if 0 \<le> i then decimal (nat i) else CHR ''-'' # decimal (nat (- i)))"

text \<open>\<open>Math.round\<close>: the nearest integer, halves rounded up.\<close>

definition Math_round :: "rat \<Rightarrow> int" where
  "Math_round x = \<lfloor>x + 1 / 2\<rfloor>"

definition string_of_bool :: "bool \<Rightarrow> string" where
  "string_of_bool b = (if b then ''true'' else ''false'')"

text \<open>
  A thrown value: an \<open>Error\<close> object with its name and message, or any other value, of
  which only the string rendering is kept.
\<close>

datatype js_value = JsError string string | JsOther string

text \<open>\<open>`${e}`\<close> (for an \<open>Error\<close>: \<open>Error.prototype.toString\<close>).\<close>

fun to_string :: "js_value \<Rightarrow> string" where
  "to_string (JsError n m) = (if n = [] then m else if m = [] then n else n @ '': '' @ m)"
| "to_string (JsOther s) = s"

text \<open>\<open>new Error(msg)\<close>.\<close>

definition new_Error :: "string \<Rightarrow> js_value" where
  "new_Error msg = JsError ''Error'' msg"

type_synonym bytes = "nat list"

record js_file =
  file_name :: string
  file_type :: string
  file_bytes :: bytes

record blob =
  blob_data :: bytes
  blob_type :: string

text \<open>
  \<open>new Blob([data], {type: t})\<close>: the constructor keeps the bytes and normalises the
  type: it becomes the empty string when it holds a character outside U+0020..U+007E,
  and is put into ASCII lowercase otherwise.
\<close>

definition printable_ascii :: "char \<Rightarrow> bool" where
  "printable_ascii c = (32 \<le> (of_char c :: nat) \<and> (of_char c :: nat) \<le> 126)"

definition ascii_lowercase :: "string \<Rightarrow> string" where
  "ascii_lowercase s = map lower_char s"

definition new_Blob :: "bytes \<Rightarrow> string \<Rightarrow> blob" where
  "new_Blob d t =
     \<lparr> blob_data = d,
       blob_type = (if list_all printable_ascii t then ascii_lowercase t else []) \<rparr>"

section \<open>The engine and the world around it\<close>

text \<open>
  Numbers are rationals. The products and comparisons that decide the properties below
  (0, 5 and 100 times 0.8, against 80) are exact in double precision as well.
\<close>

record LoadProgress =
  phase :: string
  percent :: rat
  message :: string

text \<open>The options object \<open>new WorkerBrowserConverter({...})\<close> is constructed with.\<close>

record WorkerBrowserConverter =
  sofficeJs :: string
  sofficeWasm :: string
  sofficeData :: string
  sofficeWorkerJs :: string
  browserWorkerJs :: string
  verbose :: bool

record response =
  ok :: bool
  status :: nat

record convert_result =
  data :: bytes
  mimeType :: string

record LibreOfficeConverter =
  converter :: "WorkerBrowserConverter option"
  initialized :: bool
  initializing :: bool
  basePath :: string

text \<open>
  The fields of a handle that its methods assign; \<open>basePath\<close> is assigned by the
  constructor only.
\<close>

record handle_fields =
  now_converter :: "WorkerBrowserConverter option"
  now_initialized :: bool
  now_initializing :: bool

definition with_fields :: "LibreOfficeConverter \<Rightarrow> handle_fields \<Rightarrow> LibreOfficeConverter" where
  "with_fields h f =
     h\<lparr> converter := now_converter f, initialized := now_initialized f,
        initializing := now_initializing f \<rparr>"

definition fields_of :: "LibreOfficeConverter \<Rightarrow> handle_fields" where
  "fields_of h =
     \<lparr> now_converter = converter h, now_initialized = initialized h,
       now_initializing = initializing h \<rparr>"

text \<open>
  Everything the code observes of the outside: the browser's isolation state, the
  outcome of each \<open>HEAD\<close> request, what the engine does during its startup and on a
  conversion, and, for a caller suspended in the polling loop of \<open>initialize\<close>, the
  fields of the handle as the other calls have left them at each of its wake-ups.
\<close>

record environment =
  crossOriginIsolated :: bool
  hasSharedArrayBuffer :: bool
  fetch_head :: "string \<Rightarrow> js_value + response"
  engine_progress :: "LoadProgress list"
  engine_initialize :: "js_value option"
  engine_convert :: "bytes \<Rightarrow> string \<Rightarrow> string \<Rightarrow> string \<Rightarrow> js_value + convert_result"
  engine_destroy :: "js_value option"
  polls :: "handle_fields list"

text \<open>
  The effects of a call, in order: a progress report delivered to the caller of
  \<open>process\<close>, a \<open>HEAD\<close> request, and the calls made on the engine.
\<close>

datatype event =
    Progress rat string
  | Fetch_head string
  | Engine_construct WorkerBrowserConverter
  | Engine_initialize
  | Engine_convert bytes string string string
  | Engine_destroy

text \<open>
  A progress callback, by the effects of one call of it; \<open>None\<close> when not given. A
  callback is taken to return normally.
\<close>

type_synonym ProgressCallback = "(LoadProgress \<Rightarrow> event list) option"

definition call_progress :: "ProgressCallback \<Rightarrow> LoadProgress \<Rightarrow> event list" where
  "call_progress cb p = (case cb of None \<Rightarrow> [] | Some f \<Rightarrow> f p)"

section \<open>The lifecycle manager (converter.ts)\<close>

definition LIBREOFFICE_PATH :: string where
  "LIBREOFFICE_PATH = ''/libreoffice-wasm/''"

text \<open>The constructor: \<open>this.basePath = basePath || LIBREOFFICE_PATH\<close>.\<close>

definition new_LibreOfficeConverter :: "string option \<Rightarrow> LibreOfficeConverter" where
  "new_LibreOfficeConverter bp =
     \<lparr> converter = None, initialized = False, initializing = False,
       basePath = (case bp of None \<Rightarrow> LIBREOFFICE_PATH
                   | Some p \<Rightarrow> if p = [] then LIBREOFFICE_PATH else p) \<rparr>"

definition asset_files :: "string list" where
  "asset_files =
     [''soffice.wasm'', ''soffice.data'', ''soffice.js'', ''soffice.worker.js'',
      ''browser.worker.global.js'']"

text \<open>
  The loop of \<open>checkEnvironment\<close> over the asset files. A response that is not \<open>ok\<close>
  throws \<open>Required file ...\<close>, which the \<open>catch\<close> of the same iteration rethrows as it
  is; anything else thrown by \<open>fetch\<close> is wrapped into \<open>Cannot fetch ...\<close>, unless it is
  itself an \<open>Error\<close> whose message starts with \<open>Required file\<close>.
\<close>

fun probe_files :: "environment \<Rightarrow> string \<Rightarrow> string list \<Rightarrow> (js_value + unit) \<times> event list" where
  "probe_files env bp [] = (Inr (), [])"
| "probe_files env bp (f # fs) =
     (let url = bp @ f in
      case fetch_head env url of
        Inl e \<Rightarrow>
          (case e of
             JsError n m \<Rightarrow>
               if startsWith m ''Required file'' then (Inl e, [Fetch_head url])
               else (Inl (new_Error (''Cannot fetch '' @ f @ '': '' @ to_string e)), [Fetch_head url])
           | JsOther s \<Rightarrow>
               (Inl (new_Error (''Cannot fetch '' @ f @ '': '' @ to_string e)), [Fetch_head url]))
      | Inr res \<Rightarrow>
          if ok res then
            (case probe_files env bp fs of (r, tr) \<Rightarrow> (r, Fetch_head url # tr))
          else
            (Inl (new_Error (''Required file '' @ f @ '' returned HTTP '' @ decimal (status res))),
             [Fetch_head url]))"

definition checkEnvironment :: "environment \<Rightarrow> string \<Rightarrow> (js_value + unit) \<times> event list" where
  "checkEnvironment env bp =
     (if \<not> crossOriginIsolated env \<or> \<not> hasSharedArrayBuffer env then
        (Inl (new_Error
           (''SharedArrayBuffer is not available (crossOriginIsolated=''
              @ string_of_bool (crossOriginIsolated env) @ ''). ''
              @ ''Your server must set Cross-Origin-Opener-Policy and Cross-Origin-Embedder-Policy headers. ''
              @ ''See browser console for details.'')), [])
      else probe_files env bp asset_files)"

definition new_WorkerBrowserConverter :: "string \<Rightarrow> WorkerBrowserConverter" where
  "new_WorkerBrowserConverter bp =
     \<lparr> sofficeJs = bp @ ''soffice.js'', sofficeWasm = bp @ ''soffice.wasm'',
       sofficeData = bp @ ''soffice.data'', sofficeWorkerJs = bp @ ''soffice.worker.js'',
       browserWorkerJs = bp @ ''browser.worker.global.js'', verbose = False \<rparr>"

text \<open>
  The \<open>onProgress\<close> hook given to the engine: it forwards to the caller's callback while
  the handle is not initialized, with a message of its own.
\<close>

definition relay :: "ProgressCallback \<Rightarrow> LibreOfficeConverter \<Rightarrow> LoadProgress \<Rightarrow> event list" where
  "relay cb h info =
     (if cb \<noteq> None \<and> \<not> initialized h then
        call_progress cb
          \<lparr> phase = phase info, percent = percent info,
            message = ''Loading conversion engine ('' @ number_to_string (Math_round (percent info)) @ ''%)...'' \<rparr>
      else [])"

text \<open>
  The polling loop \<open>while (this.initializing) await sleep(100)\<close>: the first test reads the
  handle as it is, each later one the handle as the caller finds it on waking up. \<open>None\<close>:
  the flag was set at every wake-up, the loop has not ended.
\<close>

fun wait_while_initializing :: "LibreOfficeConverter \<Rightarrow> handle_fields list \<Rightarrow> LibreOfficeConverter option" where
  "wait_while_initializing h [] = (if initializing h then None else Some h)"
| "wait_while_initializing h (f # fs) =
     (if initializing h then wait_while_initializing (with_fields h f) fs else Some h)"

text \<open>
  The \<open>try\<close> block of \<open>initialize\<close> with its \<open>finally\<close>, entered with the
  \<open>initializing\<close> flag set.
\<close>

definition initialize_body ::
  "environment \<Rightarrow> ProgressCallback \<Rightarrow> LibreOfficeConverter \<Rightarrow>
     (js_value + unit) \<times> LibreOfficeConverter \<times> event list" where
  "initialize_body env cb h =
     (let tr0 = call_progress cb \<lparr> phase = ''loading'', percent = 0, message = ''Checking environment...'' \<rparr> in
      case checkEnvironment env (basePath h) of
        (Inl e, tr1) \<Rightarrow> (Inl e, h\<lparr>initializing := False\<rparr>, tr0 @ tr1)
      | (Inr u, tr1) \<Rightarrow>
          (let tr2 = call_progress cb
                 \<lparr> phase = ''loading'', percent = 5, message = ''Loading conversion engine...'' \<rparr>;
               c = new_WorkerBrowserConverter (basePath h);
               h2 = h\<lparr>converter := Some c\<rparr>;
               tr3 = [Engine_construct c, Engine_initialize] @ concat (map (relay cb h2) (engine_progress env))
           in case engine_initialize env of
                Some e \<Rightarrow> (Inl e, h2\<lparr>initializing := False\<rparr>, tr0 @ tr1 @ tr2 @ tr3)
              | None \<Rightarrow>
                  (Inr (), h2\<lparr>initialized := True, initializing := False\<rparr>,
                   tr0 @ tr1 @ tr2 @ tr3 @
                   call_progress cb
                     \<lparr> phase = ''ready'', percent = 100, message = ''Conversion engine ready!'' \<rparr>)))"

text \<open>\<open>initialize\<close>; \<open>None\<close> when the call does not return (the polling loop has not ended).\<close>

definition initialize ::
  "environment \<Rightarrow> ProgressCallback \<Rightarrow> LibreOfficeConverter \<Rightarrow>
     ((js_value + unit) \<times> LibreOfficeConverter \<times> event list) option" where
  "initialize env cb h =
     (if initialized h then Some (Inr (), h, [])
      else if initializing h then
        (case wait_while_initializing h (polls env) of
           None \<Rightarrow> None
         | Some h' \<Rightarrow> Some (Inr (), h', []))
      else Some (initialize_body env cb (h\<lparr>initializing := True\<rparr>)))"

text \<open>
  \<open>isReady\<close> and \<open>convert\<close>. Reading the bytes of the file (\<open>file.arrayBuffer()\<close>) is
  taken to succeed; what the engine's \<open>convert\<close> throws is rethrown as it is.
\<close>

definition isReady :: "LibreOfficeConverter \<Rightarrow> bool" where
  "isReady h = (initialized h \<and> converter h \<noteq> None)"

definition convert ::
  "environment \<Rightarrow> js_file \<Rightarrow> string \<Rightarrow> LibreOfficeConverter \<Rightarrow>
     (js_value + blob) \<times> LibreOfficeConverter \<times> event list" where
  "convert env file outputFormat h =
     (case converter h of
        None \<Rightarrow> (Inl (new_Error ''Converter not initialized''), h, [])
      | Some c \<Rightarrow>
          (let ext = ext_of (file_name file);
               call = Engine_convert (file_bytes file) outputFormat ext (file_name file)
           in case engine_convert env (file_bytes file) outputFormat ext (file_name file) of
                Inl e \<Rightarrow> (Inl e, h, [call])
              | Inr result \<Rightarrow>
                  (Inr (new_Blob (data result) (mimeType result)), h, [call])))"

definition convertToPdf ::
  "environment \<Rightarrow> js_file \<Rightarrow> LibreOfficeConverter \<Rightarrow>
     (js_value + blob) \<times> LibreOfficeConverter \<times> event list" where
  "convertToPdf env file h = convert env file ''pdf'' h"

definition destroy ::
  "environment \<Rightarrow> LibreOfficeConverter \<Rightarrow> (js_value + unit) \<times> LibreOfficeConverter \<times> event list" where
  "destroy env h =
     (case converter h of
        None \<Rightarrow> (Inr (), h\<lparr>converter := None, initialized := False\<rparr>, [])
      | Some c \<Rightarrow>
          (case engine_destroy env of
             Some e \<Rightarrow> (Inl e, h, [Engine_destroy])
           | None \<Rightarrow> (Inr (), h\<lparr>converter := None, initialized := False\<rparr>, [Engine_destroy])))"

text \<open>
  The module-level singleton. Objects of class \<open>LibreOfficeConverter\<close> live in a store
  indexed by reference, so that "the same instance" is equality of references;
  \<open>converterInstance\<close> is the module variable, \<open>null\<close> at first.
\<close>

record module_state =
  objects :: "nat \<Rightarrow> LibreOfficeConverter"
  next_ref :: nat
  converterInstance :: "nat option"

definition getLibreOfficeConverter :: "string option \<Rightarrow> module_state \<Rightarrow> nat \<times> module_state" where
  "getLibreOfficeConverter bp st =
     (case converterInstance st of
        None \<Rightarrow>
          (let r = next_ref st in
           (r, st\<lparr> objects := (objects st)(r := new_LibreOfficeConverter bp),
                   next_ref := Suc r, converterInstance := Some r \<rparr>))
      | Some r \<Rightarrow> (r, st))"

section \<open>The gateway (excel-to-pdf.ts)\<close>

text \<open>
  Modelled from the spec: the result type and the helpers \<open>createErrorOutput\<close>,
  \<open>createSuccessOutput\<close>, \<open>updateProgress\<close> and \<open>checkCancelled\<close> of the base class
  \<open>BasePDFProcessor\<close>, whose file is not among the sources. A result is a success
  artifact with its file name and format metadata, or a failure with a code, a message
  and an optional detail; \<open>updateProgress\<close> reports a percent value and a message to the
  progress callback of the caller of \<open>process\<close>; \<open>checkCancelled\<close> reads the
  cancellation flag the caller sets.
\<close>

datatype PDFErrorCode = INVALID_OPTIONS | FILE_TYPE_INVALID | PROCESSING_CANCELLED | PROCESSING_FAILED

datatype ProcessOutput =
    Success_output blob string string
  | Error_output PDFErrorCode string "string option"

definition createErrorOutput :: "PDFErrorCode \<Rightarrow> string \<Rightarrow> string option \<Rightarrow> ProcessOutput" where
  "createErrorOutput code msg details = Error_output code msg details"

definition createSuccessOutput :: "blob \<Rightarrow> string \<Rightarrow> string \<Rightarrow> ProcessOutput" where
  "createSuccessOutput b filename fmt = Success_output b filename fmt"

definition updateProgress :: "rat \<Rightarrow> string \<Rightarrow> event list" where
  "updateProgress p msg = [Progress p msg]"

text \<open>
  The value of the cancellation flag at three moments of a call of \<open>process\<close>: when the
  input has been validated and no initialization work has started, when \<open>initialize\<close> has
  returned, and when the conversion has returned. \<open>checkCancelled\<close> is called at the last
  two.
\<close>

record cancellation =
  cancelled_before_init :: bool
  cancelled_after_init :: bool
  cancelled_after_convert :: bool

definition validExts :: "string list" where
  "validExts = [''xlsx'', ''xls'', ''ods'', ''csv'']"

text \<open>
  \<open>file.name.replace(/\.(xlsx?|ods|csv)$/i, '')\<close>: the pattern matches at a position when
  the rest of the name from there is a dot and one of the extensions, whatever the case;
  the leftmost such position is cut off.
\<close>

definition ext_pattern_matches :: "string \<Rightarrow> bool" where
  "ext_pattern_matches s =
     (case s of
        [] \<Rightarrow> False
      | c # r \<Rightarrow> c = CHR ''.'' \<and> toLowerCase r \<in> set [''xlsx'', ''xls'', ''ods'', ''csv''])"

fun replace_ext :: "string \<Rightarrow> string" where
  "replace_ext [] = []"
| "replace_ext (c # cs) = (if ext_pattern_matches (c # cs) then [] else c # replace_ext cs)"

text \<open>The callback \<open>process\<close> hands to \<open>initialize\<close>.\<close>

definition init_progress :: "LoadProgress \<Rightarrow> event list" where
  "init_progress progress = updateProgress (min (percent progress * (8 / 10)) 80) (message progress)"

text \<open>The \<open>catch\<close> of \<open>process\<close>.\<close>

definition conversion_error :: "js_value \<Rightarrow> ProcessOutput" where
  "conversion_error e =
     createErrorOutput PROCESSING_FAILED ''Failed to convert Excel to PDF.''
       (Some (case e of JsError n m \<Rightarrow> m | JsOther s \<Rightarrow> ''Unknown error''))"

definition cancelled_output :: ProcessOutput where
  "cancelled_output = createErrorOutput PROCESSING_CANCELLED ''Processing was cancelled.'' None"

text \<open>
  The \<open>try\<close> block of \<open>process\<close>, for the one validated file. The handle it works on is
  the module's instance; each change of the handle is written back to the store.
\<close>

definition process_try ::
  "environment \<Rightarrow> cancellation \<Rightarrow> js_file \<Rightarrow> module_state \<Rightarrow>
     (ProcessOutput \<times> module_state \<times> event list) option" where
  "process_try env cf file st =
     (let tr0 = updateProgress 5 ''Loading conversion engine (first time may take 1-2 minutes)...'' in
      case getLibreOfficeConverter None st of
        (r, st1) \<Rightarrow>
          (case initialize env (Some init_progress) (objects st1 r) of
             None \<Rightarrow> None
           | Some (Inl e, h1, tr1) \<Rightarrow>
               Some (conversion_error e, st1\<lparr>objects := (objects st1)(r := h1)\<rparr>, tr0 @ tr1)
           | Some (Inr u, h1, tr1) \<Rightarrow>
               (let st2 = st1\<lparr>objects := (objects st1)(r := h1)\<rparr> in
                if cancelled_after_init cf then Some (cancelled_output, st2, tr0 @ tr1)
                else
                  (let tr2 = updateProgress 85 ''Converting Excel to PDF...'' in
                   case convertToPdf env file h1 of
                     (Inl e, h2, tr3) \<Rightarrow>
                       Some (conversion_error e, st2\<lparr>objects := (objects st2)(r := h2)\<rparr>,
                             tr0 @ tr1 @ tr2 @ tr3)
                   | (Inr pdfBlob, h2, tr3) \<Rightarrow>
                       (let st3 = st2\<lparr>objects := (objects st2)(r := h2)\<rparr> in
                        if cancelled_after_convert cf then
                          Some (cancelled_output, st3, tr0 @ tr1 @ tr2 @ tr3)
                        else
                          Some (createSuccessOutput pdfBlob (replace_ext (file_name file) @ ''.pdf'') ''pdf'',
                                st3,
                                tr0 @ tr1 @ tr2 @ tr3 @ updateProgress 100 ''Conversion complete!''))))))"

definition process ::
  "environment \<Rightarrow> cancellation \<Rightarrow> js_file list \<Rightarrow> module_state \<Rightarrow>
     (ProcessOutput \<times> module_state \<times> event list) option" where
  "process env cf files st =
     (case files of
        [file] \<Rightarrow>
          (if ext_of (file_name file) \<notin> set validExts then
             Some (createErrorOutput FILE_TYPE_INVALID
                     ''Invalid file type. Please upload .xlsx, .xls, .ods, or .csv.''
                     (Some (''Received: '' @ (if file_type file \<noteq> [] then file_type file else file_name file))),
                   st, [])
           else process_try env cf file st)
      | _ \<Rightarrow>
          Some (createErrorOutput INVALID_OPTIONS ''Please provide exactly one Excel spreadsheet.''
                  (Some (''Received '' @ decimal (length files) @ '' file(s).'')),
                st, []))"

section \<open>Observations\<close>

text \<open>The percent values of the progress reports of a trace, in order.\<close>

fun percents :: "event list \<Rightarrow> rat list" where
  "percents [] = []"
| "percents (Progress p m # es) = p # percents es"
| "percents (e # es) = percents es"

text \<open>The calls made on the engine in a trace, in order.\<close>

fun is_engine_call :: "event \<Rightarrow> bool" where
  "is_engine_call (Progress p m) = False"
| "is_engine_call (Fetch_head u) = False"
| "is_engine_call e = True"

definition engine_calls :: "event list \<Rightarrow> event list" where
  "engine_calls tr = filter is_engine_call tr"

text \<open>The calls of the engine's \<open>convert\<close> in a trace.\<close>

fun is_convert_call :: "event \<Rightarrow> bool" where
  "is_convert_call (Engine_convert b f e n) = True"
| "is_convert_call e = False"

definition convert_calls :: "event list \<Rightarrow> event list" where
  "convert_calls tr = filter is_convert_call tr"

text \<open>
  The text after the last dot of a name, the whole name when it has no dot: what
  \<open>split('.').pop()\<close> returns.
\<close>

definition last_segment :: "string \<Rightarrow> string" where
  "last_segment name = rev (takeWhile (\<lambda>c. c \<noteq> CHR ''.'') (rev name))"

text \<open>
  The extension in the words of the specification, "the part after the last dot,
  lowercased": a name without a dot has none.
\<close>

definition extension_after_last_dot :: "string \<Rightarrow> string option" where
  "extension_after_last_dot name =
     (if CHR ''.'' \<in> set name then Some (toLowerCase (last_segment name)) else None)"

section \<open>Several calls\<close>

text \<open>
  Uses of the singleton: a call \<open>getLibreOfficeConverter(bp)\<close> followed by one call of
  \<open>initialize\<close>, \<open>convert\<close> or \<open>destroy\<close> on the instance it returns (or by none), or a
  call of \<open>process\<close>, which calls \<open>getLibreOfficeConverter()\<close> itself when its input has
  passed validation. A run of such requests lists every call of
  \<open>getLibreOfficeConverter\<close> that is made, by the requester or by \<open>process\<close>: the argument
  it was given, the reference it returned, and the base path of the instance behind that
  reference, which is the one \<open>initialize\<close> builds the asset addresses from. A call of
  \<open>process\<close> that does not return has made its call of \<open>getLibreOfficeConverter\<close> and is
  polling in \<open>initialize\<close>.
\<close>

datatype member_call =
    No_call
  | Initialize environment ProgressCallback
  | Convert environment js_file string
  | Destroy environment

datatype request =
    Request "string option" member_call
  | Process environment cancellation "js_file list"

fun call_method :: "member_call \<Rightarrow> LibreOfficeConverter \<Rightarrow> LibreOfficeConverter" where
  "call_method No_call h = h"
| "call_method (Initialize env cb) h =
     (case initialize env cb h of None \<Rightarrow> h | Some (res, h', tr) \<Rightarrow> h')"
| "call_method (Convert env file fmt) h = fst (snd (convert env file fmt h))"
| "call_method (Destroy env) h = fst (snd (destroy env h))"

text \<open>The file with which \<open>process\<close> enters its \<open>try\<close> block, if it does.\<close>

definition validated :: "js_file list \<Rightarrow> js_file option" where
  "validated files =
     (case files of
        [file] \<Rightarrow> if ext_of (file_name file) \<notin> set validExts then None else Some file
      | _ \<Rightarrow> None)"

fun run_requests ::
  "request list \<Rightarrow> module_state \<Rightarrow> (string option \<times> nat \<times> string) list \<times> module_state" where
  "run_requests [] st = ([], st)"
| "run_requests (Request bp m # rs) st =
     (case getLibreOfficeConverter bp st of
        (r, st1) \<Rightarrow>
          (case run_requests rs (st1\<lparr>objects := (objects st1)(r := call_method m (objects st1 r))\<rparr>) of
             (outs, st2) \<Rightarrow> ((bp, r, basePath (objects st1 r)) # outs, st2)))"
| "run_requests (Process env cf files # rs) st =
     (case validated files of
        None \<Rightarrow>
          run_requests rs (case process env cf files st of None \<Rightarrow> st | Some (out, st', tr) \<Rightarrow> st')
      | Some file \<Rightarrow>
          (case getLibreOfficeConverter None st of
             (r, st1) \<Rightarrow>
               (case run_requests rs
                       (case process env cf files st of None \<Rightarrow> st1 | Some (out, st', tr) \<Rightarrow> st') of
                  (outs, st2) \<Rightarrow> ((None, r, basePath (objects st1 r)) # outs, st2))))"

text \<open>
  Two calls of \<open>initialize\<close> on one handle that is neither initialized nor initializing,
  the second made while the first is in flight. The first caller sets \<open>initializing\<close>
  and is suspended in its \<open>try\<close> block, at the \<open>await\<close> of \<open>checkEnvironment\<close>; the second
  caller then finds the flag set and polls; it wakes up \<open>k\<close> times while the first is
  still running, the flag being set all that time, and once more when the first has
  finished. The result is what the first caller gets and does, what the second caller
  gets and does, and the handle at the end.
\<close>

definition concurrent_initialize ::
  "environment \<Rightarrow> ProgressCallback \<Rightarrow> ProgressCallback \<Rightarrow> nat \<Rightarrow> LibreOfficeConverter \<Rightarrow>
     (((js_value + unit) \<times> event list) \<times> ((js_value + unit) \<times> event list) \<times> LibreOfficeConverter) option" where
  "concurrent_initialize env cb1 cb2 k h =
     (case initialize env cb1 h of
        None \<Rightarrow> None
      | Some (res1, h1, tr1) \<Rightarrow>
          (let in_flight = h\<lparr>initializing := True\<rparr>;
               seen = replicate k (fields_of in_flight) @ [fields_of h1]
           in case initialize (env\<lparr>polls := seen\<rparr>) cb2 in_flight of
                None \<Rightarrow> None
              | Some (res2, h2, tr2) \<Rightarrow> Some ((res1, tr1), (res2, tr2), h2)))"

section \<open>Examples\<close>

text \<open>
  A browser that is cross-origin isolated, a server that answers every \<open>HEAD\<close> request
  with 200, and an engine that starts silently and converts everything to four bytes of
  PDF.
\<close>

definition example_env :: environment where
  "example_env =
     \<lparr> crossOriginIsolated = True, hasSharedArrayBuffer = True,
       fetch_head = (\<lambda>u. Inr \<lparr> ok = True, status = 200 \<rparr>),
       engine_progress = [],
       engine_initialize = None,
       engine_convert = (\<lambda>b f e n. Inr \<lparr> data = [37, 80, 68, 70], mimeType = ''application/pdf'' \<rparr>),
       engine_destroy = None,
       polls = [] \<rparr>"

text \<open>Environments in which something fails.\<close>

definition missing_asset_env :: environment where
  "missing_asset_env =
     example_env\<lparr> fetch_head :=
       (\<lambda>u. if u = ''/libreoffice-wasm/soffice.js'' then Inr \<lparr> ok = False, status = 404 \<rparr>
            else Inr \<lparr> ok = True, status = 200 \<rparr>) \<rparr>"

definition failing_startup_env :: environment where
  "failing_startup_env =
     example_env\<lparr> engine_initialize := Some (JsError ''Error'' ''WASM load timeout'') \<rparr>"

definition failing_convert_env :: environment where
  "failing_convert_env =
     example_env\<lparr> engine_convert := (\<lambda>b f e n. Inl (JsError ''Error'' ''Document is corrupt'')) \<rparr>"

text \<open>An engine that throws a string, and one that declares its type in capitals.\<close>

definition throwing_string_env :: environment where
  "throwing_string_env =
     example_env\<lparr> engine_convert := (\<lambda>b f e n. Inl (JsOther ''worker crashed'')) \<rparr>"

definition capitals_env :: environment where
  "capitals_env =
     example_env\<lparr> engine_convert :=
       (\<lambda>b f e n. Inr \<lparr> data = [37, 80, 68, 70], mimeType = ''Application/PDF'' \<rparr>) \<rparr>"

text \<open>The module as loaded: no instance yet.\<close>

definition fresh_module :: module_state where
  "fresh_module =
     \<lparr> objects = (\<lambda>r. new_LibreOfficeConverter None), next_ref = 0, converterInstance = None \<rparr>"

definition example_file :: "string \<Rightarrow> js_file" where
  "example_file name = \<lparr> file_name = name, file_type = [], file_bytes = [80, 75, 3, 4] \<rparr>"

text \<open>The caller never cancels, or cancels at some moment and the flag stays set.\<close>

definition no_cancel :: cancellation where
  "no_cancel =
     \<lparr> cancelled_before_init = False, cancelled_after_init = False, cancelled_after_convert = False \<rparr>"

definition always_cancelled :: cancellation where
  "always_cancelled =
     \<lparr> cancelled_before_init = True, cancelled_after_init = True, cancelled_after_convert = True \<rparr>"

definition cancelled_during_init :: cancellation where
  "cancelled_during_init =
     \<lparr> cancelled_before_init = False, cancelled_after_init = True, cancelled_after_convert = True \<rparr>"

definition cancelled_during_convert :: cancellation where
  "cancelled_during_convert =
     \<lparr> cancelled_before_init = False, cancelled_after_init = False, cancelled_after_convert = True \<rparr>"

section \<open>Properties\<close>

subsection \<open>Strings\<close>

lemma split_not_Nil: "split d s \<noteq> []"
  by (induction s) (auto split: list.splits)

lemma split_no_sep: "d \<notin> set s \<Longrightarrow> split d s = [s]"
  by (induction s) auto

lemma split_tl_Nil: "(tl (split d s) = []) = (d \<notin> set s)"
  by (induction s) (auto split: list.splits simp: split_not_Nil)

lemma takeWhile_rev_snoc:
  "takeWhile (\<lambda>c. c \<noteq> d) (rev cs @ [c]) =
     (if d \<in> set cs then takeWhile (\<lambda>c. c \<noteq> d) (rev cs)
      else if c = d then rev cs else rev cs @ [c])"
proof (cases "d \<in> set cs")
  case True
  then have "d \<in> set (rev cs)" by simp
  then have "takeWhile (\<lambda>c. c \<noteq> d) (rev cs @ [c]) = takeWhile (\<lambda>c. c \<noteq> d) (rev cs)"
    by (rule takeWhile_append1) simp
  then show ?thesis using True by simp
next
  case False
  then have "\<And>x. x \<in> set (rev cs) \<Longrightarrow> x \<noteq> d" by auto
  then have "takeWhile (\<lambda>c. c \<noteq> d) (rev cs @ [c]) = rev cs @ takeWhile (\<lambda>c. c \<noteq> d) [c]"
    by (rule takeWhile_append2)
  then show ?thesis using False by simp
qed

lemma last_split: "last (split d s) = rev (takeWhile (\<lambda>c. c \<noteq> d) (rev s))"
proof (induction s)
  case Nil
  show ?case by simp
next
  case (Cons c cs)
  obtain w ws where sp: "split d cs = w # ws"
    using split_not_Nil[of d cs] by (cases "split d cs") auto
  show ?case
  proof (cases "d \<in> set cs")
    case True
    then have "ws \<noteq> []" using split_tl_Nil[of d cs] sp by auto
    then show ?thesis using Cons sp True by (simp add: takeWhile_rev_snoc)
  next
    case False
    then have "split d cs = [cs]" by (rule split_no_sep)
    then show ?thesis using False by (simp add: takeWhile_rev_snoc)
  qed
qed

lemma ext_of_last_segment: "ext_of name = toLowerCase (last_segment name)"
  by (simp add: ext_of_def pop_def split_not_Nil last_split last_segment_def)

text \<open>\<open>decimal\<close> writes a number in base ten: reading the digits back gives the number.\<close>

lemma digit_value: "d < 10 \<Longrightarrow> (of_char (digit_char d) :: nat) = 48 + d"
  by (simp add: digit_char_def)

lemma decimal_value: "foldl (\<lambda>a c. 10 * a + (of_char c - 48)) 0 (decimal n) = n"
proof (induction n rule: decimal.induct)
  case (1 n)
  have d: "(of_char (digit_char (n mod 10)) :: nat) - 48 = n mod 10"
    by (simp add: digit_value)
  show ?case
  proof (cases "10 \<le> n")
    case True
    then show ?thesis using 1 d by (subst decimal.simps) simp
  next
    case False
    then show ?thesis using d by (subst decimal.simps) simp
  qed
qed

subsection \<open>Input validation\<close>

text \<open>
  C7. Whenever the number of files is not one, \<open>process\<close> returns the failure
  \<open>INVALID_OPTIONS\<close> whose detail names the number of files received, and nothing else
  happens: the module state is returned as it was (no instance is created, no handle
  changes) and the trace is empty (no request, no call on the engine, no progress
  report).
\<close>

theorem process_rejects_wrong_file_count:
  "length files \<noteq> 1 \<Longrightarrow>
   process env cf files st =
     Some (Error_output INVALID_OPTIONS ''Please provide exactly one Excel spreadsheet.''
             (Some (''Received '' @ decimal (length files) @ '' file(s).'')), st, [])"
  by (cases files rule: list.exhaust; simp add: process_def createErrorOutput_def split: list.splits)

theorem process_rejects_wrong_file_count_witness:
  "length [example_file ''a.xlsx'', example_file ''b.xlsx''] \<noteq> 1 \<and>
   process example_env no_cancel [example_file ''a.xlsx'', example_file ''b.xlsx''] fresh_module =
     Some (Error_output INVALID_OPTIONS ''Please provide exactly one Excel spreadsheet.''
             (Some ''Received 2 file(s).''), fresh_module, [])"
proof -
  let ?files = "[example_file ''a.xlsx'', example_file ''b.xlsx'']"
  have len: "length ?files \<noteq> 1" by simp
  have count: "decimal (length ?files) = ''2''" by code_simp
  show ?thesis
    using len process_rejects_wrong_file_count [OF len, of example_env no_cancel fresh_module, unfolded count]
    by simp
qed

lemma lower_char_dot: "lower_char (CHR ''.'') = CHR ''.''"
  by code_simp

lemma dot_in_toLowerCase: "CHR ''.'' \<in> set s \<Longrightarrow> CHR ''.'' \<in> set (toLowerCase s)"
proof -
  assume "CHR ''.'' \<in> set s"
  then have "lower_char (CHR ''.'') \<in> lower_char ` set s" by (rule imageI)
  then show ?thesis by (simp add: toLowerCase_def lower_char_dot)
qed

lemma valid_ext_no_dot: "toLowerCase e \<in> set validExts \<Longrightarrow> CHR ''.'' \<notin> set e"
proof
  assume v: "toLowerCase e \<in> set validExts" and d: "CHR ''.'' \<in> set e"
  from d have "CHR ''.'' \<in> set (toLowerCase e)" by (rule dot_in_toLowerCase)
  with v show False by (auto simp: validExts_def)
qed

lemma last_segment_dotted: "CHR ''.'' \<notin> set e \<Longrightarrow> last_segment (base @ CHR ''.'' # e) = e"
proof -
  assume nd: "CHR ''.'' \<notin> set e"
  then have "\<And>x. x \<in> set (rev e) \<Longrightarrow> x \<noteq> CHR ''.''" by auto
  then have "takeWhile (\<lambda>c. c \<noteq> CHR ''.'') (rev e @ CHR ''.'' # rev base) = rev e @ takeWhile (\<lambda>c. c \<noteq> CHR ''.'') (CHR ''.'' # rev base)"
    by (rule takeWhile_append2)
  then show ?thesis by (simp add: last_segment_def)
qed

lemma last_segment_no_dot: "CHR ''.'' \<notin> set name \<Longrightarrow> last_segment name = name"
proof -
  assume nd: "CHR ''.'' \<notin> set name"
  have "takeWhile (\<lambda>c. c \<noteq> CHR ''.'') (rev name) = rev name"
    unfolding takeWhile_eq_all_conv using nd by auto
  then show ?thesis unfolding last_segment_def by (simp only: rev_rev_ident)
qed

lemma replace_ext_dotted:
  "toLowerCase e \<in> set validExts \<Longrightarrow> replace_ext (base @ CHR ''.'' # e) = base"
proof (induction base)
  case Nil
  then show ?case by (simp add: ext_pattern_matches_def validExts_def)
next
  case (Cons c cs)
  have "toLowerCase (cs @ CHR ''.'' # e) \<notin> set validExts"
    using valid_ext_no_dot[of "cs @ CHR ''.'' # e"] by auto
  then have "\<not> ext_pattern_matches (c # cs @ CHR ''.'' # e)"
    by (simp add: ext_pattern_matches_def validExts_def)
  then show ?case using Cons by simp
qed


text \<open>
  C8, as amended. For a single file, the code takes as extension the last of the pieces
  of the name between dots, lowercased: the text after the last dot, and the whole name
  when it has no dot. Whenever that is not one of \<open>xlsx\<close>, \<open>xls\<close>, \<open>ods\<close>, \<open>csv\<close>,
  \<open>process\<close> returns the failure \<open>FILE_TYPE_INVALID\<close> whose detail names the MIME type of
  the file, or its name when the type is empty, and nothing else happens: the module
  state is returned as it was and the trace is empty.
\<close>

theorem process_rejects_unsupported_extension:
  "toLowerCase (last_segment (file_name file)) \<notin> set validExts \<Longrightarrow>
   process env cf [file] st =
     Some (Error_output FILE_TYPE_INVALID
             ''Invalid file type. Please upload .xlsx, .xls, .ods, or .csv.''
             (Some (''Received: '' @ (if file_type file \<noteq> [] then file_type file else file_name file))),
           st, [])"
  by (simp add: process_def createErrorOutput_def ext_of_last_segment)

theorem process_rejects_unsupported_extension_witness:
  "toLowerCase (last_segment (file_name (example_file ''notes.TXT''))) \<notin> set validExts \<and>
   process example_env no_cancel [example_file ''notes.TXT''] fresh_module =
     Some (Error_output FILE_TYPE_INVALID
             ''Invalid file type. Please upload .xlsx, .xls, .ods, or .csv.''
             (Some ''Received: notes.TXT''), fresh_module, [])"
proof -
  have ext: "toLowerCase (last_segment (file_name (example_file ''notes.TXT''))) \<notin> set validExts"
    by code_simp
  show ?thesis
    using ext process_rejects_unsupported_extension [OF ext, of example_env no_cancel fresh_module]
    by (simp add: example_file_def)
qed

text \<open>
  C8 as stated fails on a name without a dot. The file named \<open>csv\<close> has no part after a
  last dot, so no extension among the four; yet \<open>process\<close> accepts it, starts the engine
  and converts it.
\<close>

theorem dotless_name_is_accepted:
  "extension_after_last_dot (file_name (example_file ''csv'')) = None \<and>
   map_option fst (process example_env no_cancel [example_file ''csv''] fresh_module) =
     Some (Success_output \<lparr> blob_data = [37, 80, 68, 70], blob_type = ''application/pdf'' \<rparr>
             ''csv.pdf'' ''pdf'') \<and>
   map_option (\<lambda>r. engine_calls (snd (snd r)))
       (process example_env no_cancel [example_file ''csv''] fresh_module) =
     Some [Engine_construct (new_WorkerBrowserConverter LIBREOFFICE_PATH), Engine_initialize,
           Engine_convert [80, 75, 3, 4] ''pdf'' ''csv'' ''csv'']"
  by code_simp

subsection \<open>The success artifact\<close>

text \<open>
  C9, as amended. When \<open>process\<close> succeeds on a file named \<open>base.ext\<close> with \<open>ext\<close> one of
  \<open>xlsx\<close>, \<open>xls\<close>, \<open>ods\<close>, \<open>csv\<close> in any case, the artifact is named \<open>base.pdf\<close>, its
  format metadata is \<open>pdf\<close>, and its blob carries the bytes of the result the engine
  returned for this file and that result's MIME type as the \<open>Blob\<close> constructor
  normalises it: in ASCII lowercase, or empty when it holds a character outside
  U+0020..U+007E. It is the declared type itself whenever that is printable ASCII
  without capitals.
\<close>

theorem process_success_artifact:
  assumes "process env cf [file] st = Some (Success_output b fname fmt, st', tr)"
    and "file_name file = base @ CHR ''.'' # e"
    and "toLowerCase e \<in> set validExts"
  shows "fname = base @ ''.pdf'' \<and> fmt = ''pdf'' \<and>
         (\<exists>result.
            engine_convert env (file_bytes file) ''pdf'' (toLowerCase e) (file_name file) = Inr result \<and>
            blob_data b = data result \<and>
            blob_type b =
              (if list_all printable_ascii (mimeType result) then ascii_lowercase (mimeType result)
               else []) \<and>
            (list_all printable_ascii (mimeType result) \<and>
             ascii_lowercase (mimeType result) = mimeType result \<longrightarrow>
               blob_type b = mimeType result))"
proof -
  have nd: "CHR ''.'' \<notin> set e" using assms(3) by (rule valid_ext_no_dot)
  have ext: "ext_of (file_name file) = toLowerCase e"
    using assms(2) nd by (simp add: ext_of_last_segment last_segment_dotted)
  have rep: "replace_ext (file_name file) = base"
    using assms(2,3) by (simp add: replace_ext_dotted)
  have run: "process_try env cf file st = Some (Success_output b fname fmt, st', tr)"
    using assms(1,3) ext by (simp add: process_def)
  obtain r st1 where get: "getLibreOfficeConverter None st = (r, st1)"
    by (cases "getLibreOfficeConverter None st")
  obtain h1 tr1 where
    init: "initialize env (Some init_progress) (objects st1 r) = Some (Inr (), h1, tr1)"
  proof (cases "initialize env (Some init_progress) (objects st1 r)")
    case None
    then show ?thesis using run get by (simp add: process_try_def)
  next
    case (Some a)
    obtain res h1 tr1 where a: "a = (res, h1, tr1)" by (cases a)
    show ?thesis
    proof (cases res)
      case (Inl err)
      then show ?thesis using run get Some a
        by (simp add: process_try_def conversion_error_def createErrorOutput_def)
    next
      case (Inr u)
      then show ?thesis using that Some a by simp
    qed
  qed
  obtain res h2 tr3 where conv: "convertToPdf env file h1 = (res, h2, tr3)"
    by (cases "convertToPdf env file h1")
  have out: "res = Inr b \<and> fname = replace_ext (file_name file) @ ''.pdf'' \<and> fmt = ''pdf''"
    using run get init conv
    by (cases res)
       (auto simp: process_try_def Let_def conversion_error_def createErrorOutput_def
          cancelled_output_def createSuccessOutput_def split: if_splits)
  then have "convert env file ''pdf'' h1 = (Inr b, h2, tr3)"
    using conv by (simp add: convertToPdf_def)
  then obtain result where
    eng: "engine_convert env (file_bytes file) ''pdf'' (toLowerCase e) (file_name file) = Inr result"
    and blob: "b = new_Blob (data result) (mimeType result)"
    by (auto simp: convert_def Let_def ext split: option.splits sum.splits)
  have "blob_data b = data result"
    and "blob_type b =
           (if list_all printable_ascii (mimeType result) then ascii_lowercase (mimeType result) else [])"
    using blob by (simp_all add: new_Blob_def)
  then show ?thesis using out rep eng by auto
qed

theorem process_success_artifact_witness:
  "toLowerCase ''XLSX'' \<in> set validExts \<and>
   (\<exists>st' tr result.
      process example_env no_cancel [example_file ''Q3.report.XLSX''] fresh_module =
        Some (Success_output \<lparr> blob_data = [37, 80, 68, 70], blob_type = ''application/pdf'' \<rparr>
                ''Q3.report.pdf'' ''pdf'', st', tr) \<and>
      engine_convert example_env [80, 75, 3, 4] ''pdf'' ''xlsx'' ''Q3.report.XLSX'' = Inr result \<and>
      data result = [37, 80, 68, 70] \<and>
      (if list_all printable_ascii (mimeType result) then ascii_lowercase (mimeType result) else []) =
        ''application/pdf'')"
proof -
  let ?file = "example_file ''Q3.report.XLSX''"
  let ?out = "Success_output \<lparr> blob_data = [37, 80, 68, 70], blob_type = ''application/pdf'' \<rparr>
                ''Q3.report.pdf'' ''pdf''"
  have v: "toLowerCase ''XLSX'' \<in> set validExts" by code_simp
  have low: "toLowerCase ''XLSX'' = ''xlsx''" by code_simp
  have n: "file_name ?file = ''Q3.report'' @ CHR ''.'' # ''XLSX''" by (simp add: example_file_def)
  have "map_option fst (process example_env no_cancel [?file] fresh_module) = Some ?out"
    by code_simp
  then obtain st' tr where run: "process example_env no_cancel [?file] fresh_module = Some (?out, st', tr)"
    by (cases "process example_env no_cancel [?file] fresh_module") auto
  from process_success_artifact [OF run n v]
  obtain result where
    "engine_convert example_env (file_bytes ?file) ''pdf'' (toLowerCase ''XLSX'') (file_name ?file) = Inr result"
    "[37, 80, 68, 70] = data result"
    "''application/pdf'' =
       (if list_all printable_ascii (mimeType result) then ascii_lowercase (mimeType result) else [])"
    by auto
  then have "engine_convert example_env [80, 75, 3, 4] ''pdf'' ''xlsx'' ''Q3.report.XLSX'' = Inr result"
    "data result = [37, 80, 68, 70]"
    "(if list_all printable_ascii (mimeType result) then ascii_lowercase (mimeType result) else []) =
       ''application/pdf''"
    by (simp_all add: low example_file_def)
  with run v show ?thesis by blast
qed

text \<open>
  C9 as stated fails on the MIME type. An engine that declares \<open>Application/PDF\<close> yields
  an artifact whose type is \<open>application/pdf\<close>, which is not the declared one; name and
  format are as stated.
\<close>

theorem declared_type_is_normalised:
  "map_option fst (process capitals_env no_cancel [example_file ''a.xlsx''] fresh_module) =
     Some (Success_output \<lparr> blob_data = [37, 80, 68, 70], blob_type = ''application/pdf'' \<rparr>
             ''a.pdf'' ''pdf'') \<and>
   map_sum id mimeType (engine_convert capitals_env [80, 75, 3, 4] ''pdf'' ''xlsx'' ''a.xlsx'') =
     Inr ''Application/PDF''"
  by code_simp

subsection \<open>The singleton\<close>

lemma basePath_wait:
  "wait_while_initializing h fs = Some h' \<Longrightarrow> basePath h' = basePath h"
  by (induction h fs rule: wait_while_initializing.induct)
     (auto simp: with_fields_def split: if_splits)

lemma basePath_initialize_body:
  "basePath (fst (snd (initialize_body env cb h))) = basePath h"
  by (cases "checkEnvironment env (basePath h)")
     (auto simp: initialize_body_def Let_def split: sum.splits option.splits)

lemma basePath_initialize:
  "initialize env cb h = Some (res, h', tr) \<Longrightarrow> basePath h' = basePath h"
  using basePath_initialize_body[of env cb "h\<lparr>initializing := True\<rparr>"]
  by (auto simp: initialize_def split: if_splits option.splits dest: basePath_wait)

lemma basePath_convert: "basePath (fst (snd (convert env file fmt h))) = basePath h"
  by (simp add: convert_def Let_def split: option.splits sum.splits)

lemma basePath_destroy: "basePath (fst (snd (destroy env h))) = basePath h"
  by (simp add: destroy_def split: option.splits)

lemma basePath_call_method: "basePath (call_method m h) = basePath h"
  by (cases m)
     (auto simp: basePath_convert basePath_destroy split: option.splits dest: basePath_initialize)

lemma getter_sets_instance:
  "getLibreOfficeConverter bp st = (r, st1) \<Longrightarrow> converterInstance st1 = Some r"
  by (auto simp: getLibreOfficeConverter_def Let_def split: option.splits)

lemma getter_first_call:
  "converterInstance st = None \<Longrightarrow>
   getLibreOfficeConverter bp st =
     (next_ref st,
      st\<lparr> objects := (objects st)(next_ref st := new_LibreOfficeConverter bp),
          next_ref := Suc (next_ref st), converterInstance := Some (next_ref st) \<rparr>)"
  by (simp add: getLibreOfficeConverter_def Let_def)

lemma getter_later_call:
  "converterInstance st = Some r \<Longrightarrow> getLibreOfficeConverter bp st = (r, st)"
  by (simp add: getLibreOfficeConverter_def)

lemma process_not_validated:
  "validated files = None \<Longrightarrow> \<exists>out. process env cf files st = Some (out, st, [])"
  by (cases files rule: list.exhaust; cases "tl files")
     (auto simp: validated_def process_def split: if_splits list.splits)

lemma process_validated:
  "validated files = Some f \<Longrightarrow> process env cf files st = process_try env cf f st"
  by (cases files rule: list.exhaust; cases "tl files")
     (auto simp: validated_def process_def split: if_splits list.splits)

lemma process_try_keeps_instance:
  assumes "getLibreOfficeConverter None st = (r, st1)" and "basePath (objects st1 r) = p"
    and "process_try env cf f st = Some (out, st', tr)"
  shows "converterInstance st' = Some r \<and> basePath (objects st' r) = p"
proof -
  have inst: "converterInstance st1 = Some r" using assms(1) by (rule getter_sets_instance)
  obtain res h1 tr1 where init: "initialize env (Some init_progress) (objects st1 r) = Some (res, h1, tr1)"
    using assms(1,3)
    by (cases "initialize env (Some init_progress) (objects st1 r)") (auto simp: process_try_def)
  have h1: "basePath h1 = p" using basePath_initialize[OF init] assms(2) by simp
  obtain c h2 tr3 where conv: "convertToPdf env f h1 = (c, h2, tr3)"
    by (cases "convertToPdf env f h1")
  have h2: "basePath h2 = p"
    using conv basePath_convert[of env f "''pdf''" h1] h1 by (simp add: convertToPdf_def)
  show ?thesis
    using assms(1,3) init conv inst h1 h2
    by (auto simp: process_try_def Let_def split: sum.splits if_splits)
qed

lemma run_requests_shared:
  "converterInstance st = Some r \<Longrightarrow> basePath (objects st r) = p \<Longrightarrow>
   run_requests rs st = (outs, st') \<Longrightarrow>
   (\<forall>out\<in>set outs. snd out = (r, p)) \<and> converterInstance st' = Some r \<and> basePath (objects st' r) = p"
proof (induction rs arbitrary: st outs)
  case Nil
  then show ?case by simp
next
  case (Cons q rs)
  show ?case
  proof (cases q)
    case (Request bp m)
    let ?st2 = "st\<lparr>objects := (objects st)(r := call_method m (objects st r))\<rparr>"
    have get: "getLibreOfficeConverter bp st = (r, st)"
      using Cons.prems(1) by (rule getter_later_call)
    obtain outs2 where rest: "run_requests rs ?st2 = (outs2, st')" and outs: "outs = (bp, r, p) # outs2"
      using Cons.prems(2,3) Request get by (auto split: prod.splits)
    have "converterInstance ?st2 = Some r" using Cons.prems(1) by simp
    moreover have "basePath (objects ?st2 r) = p" using Cons.prems(2) by (simp add: basePath_call_method)
    ultimately have "(\<forall>out\<in>set outs2. snd out = (r, p)) \<and> converterInstance st' = Some r \<and>
                     basePath (objects st' r) = p"
      using rest by (rule Cons.IH)
    then show ?thesis using outs by simp
  next
    case (Process env cf files)
    have get: "getLibreOfficeConverter None st = (r, st)"
      using Cons.prems(1) by (rule getter_later_call)
    show ?thesis
    proof (cases "validated files")
      case None
      then obtain out where "process env cf files st = Some (out, st, [])"
        using process_not_validated by blast
      then have "run_requests rs st = (outs, st')"
        using Cons.prems(3) Process None by simp
      then show ?thesis using Cons.prems(1,2) Cons.IH by blast
    next
      case (Some f)
      let ?st2 = "case process env cf files st of None \<Rightarrow> st | Some (out, st1, tr) \<Rightarrow> st1"
      obtain outs2 where rest: "run_requests rs ?st2 = (outs2, st')" and outs: "outs = (None, r, p) # outs2"
        using Cons.prems(2,3) Process Some get by (auto split: prod.splits)
      have "converterInstance ?st2 = Some r \<and> basePath (objects ?st2 r) = p"
      proof (cases "process env cf files st")
        case None
        then show ?thesis using Cons.prems(1,2) by simp
      next
        case (Some a)
        obtain out st1 tr where a: "a = (out, st1, tr)" by (cases a)
        have "process_try env cf f st = Some (out, st1, tr)"
          using Some a process_validated[OF \<open>validated files = Some f\<close>, of env cf st] by simp
        then show ?thesis
          using process_try_keeps_instance[OF get Cons.prems(2)] Some a by simp
      qed
      then have "(\<forall>out\<in>set outs2. snd out = (r, p)) \<and> converterInstance st' = Some r \<and>
                 basePath (objects st' r) = p"
        using rest Cons.IH by blast
      then show ?thesis using outs by simp
    qed
  qed
qed

text \<open>
  The base path of the instance is what a conversion made through \<open>process\<close> uses: an
  engine constructed during the call is given the asset addresses under that path.
\<close>

lemma construct_not_in_init_progress:
  "Engine_construct c \<notin> set (call_progress (Some init_progress) p)"
  by (simp add: call_progress_def init_progress_def updateProgress_def)

lemma construct_not_in_relay:
  "Engine_construct c \<notin> set (concat (map (relay (Some init_progress) h) ps))"
  by (induction ps) (simp_all add: relay_def construct_not_in_init_progress)

lemma construct_not_in_probe_files: "Engine_construct c \<notin> set (snd (probe_files env bp fs))"
  by (induction fs)
     (auto simp: Let_def split: sum.splits js_value.splits prod.splits if_splits)

lemma construct_in_initialize_body:
  "Engine_construct c \<in> set (snd (snd (initialize_body env (Some init_progress) h))) \<Longrightarrow>
   c = new_WorkerBrowserConverter (basePath h)"
proof (cases "checkEnvironment env (basePath h)")
  case (Pair res tr1)
  then have tr1: "Engine_construct c \<notin> set tr1"
    using construct_not_in_probe_files[of c env "basePath h" asset_files]
    by (auto simp: checkEnvironment_def split: if_splits)
  assume "Engine_construct c \<in> set (snd (snd (initialize_body env (Some init_progress) h)))"
  then show ?thesis
    using Pair tr1 construct_not_in_init_progress construct_not_in_relay
    by (cases res; cases "engine_initialize env")
       (auto simp: initialize_body_def Let_def)
qed

lemma construct_in_initialize:
  "initialize env (Some init_progress) h = Some (res, h', tr) \<Longrightarrow> Engine_construct c \<in> set tr \<Longrightarrow>
   c = new_WorkerBrowserConverter (basePath h)"
  using construct_in_initialize_body[of c env "h\<lparr>initializing := True\<rparr>"]
  by (auto simp: initialize_def split: if_splits option.splits)

lemma process_try_constructs_with_basePath:
  assumes "getLibreOfficeConverter None st = (r, st1)"
    and "process_try env cf f st = Some (out, st', tr)"
    and "Engine_construct c \<in> set tr"
  shows "c = new_WorkerBrowserConverter (basePath (objects st1 r))"
proof -
  obtain res h1 tr1 where init: "initialize env (Some init_progress) (objects st1 r) = Some (res, h1, tr1)"
    using assms(1,2)
    by (cases "initialize env (Some init_progress) (objects st1 r)") (auto simp: process_try_def)
  obtain cv h2 tr3 where conv: "convertToPdf env f h1 = (cv, h2, tr3)"
    by (cases "convertToPdf env f h1")
  have tr3: "Engine_construct c \<notin> set tr3"
    using conv by (auto simp: convertToPdf_def convert_def Let_def split: option.splits sum.splits)
  have "Engine_construct c \<in> set tr1"
    using assms init conv tr3
    by (auto simp: process_try_def Let_def updateProgress_def split: sum.splits if_splits)
  then show ?thesis using construct_in_initialize[OF init] by simp
qed

text \<open>
  C10. From a module that has no instance yet, take any run of requests: calls of
  \<open>getLibreOfficeConverter\<close> with any base path argument, each followed or not by a call
  of \<open>initialize\<close>, \<open>convert\<close> or \<open>destroy\<close> on what it returned, and calls of \<open>process\<close>,
  in any order. Every call of \<open>getLibreOfficeConverter\<close> in the run, those that \<open>process\<close>
  makes included, returns the same reference, the one the first call created, and at
  every call the base path of that instance is the one the first call fixed: its
  argument, or \<open>/libreoffice-wasm/\<close> when the argument is absent (or empty), as it is
  when \<open>process\<close> makes the first call. The arguments of the later calls are ignored.
\<close>

theorem singleton_is_shared:
  assumes "converterInstance st = None"
    and "run_requests rs st = (outs, st')"
  shows "\<forall>out\<in>set outs.
           snd out =
             (next_ref st,
              case fst (hd outs) of
                None \<Rightarrow> ''/libreoffice-wasm/''
              | Some p \<Rightarrow> if p = [] then ''/libreoffice-wasm/'' else p)"
  using assms
proof (induction rs arbitrary: st outs)
  case Nil
  then show ?case by simp
next
  case (Cons q rs)
  let ?r = "next_ref st"
  show ?case
  proof (cases q)
    case (Request bp m)
    let ?p = "case bp of None \<Rightarrow> ''/libreoffice-wasm/'' | Some p \<Rightarrow> if p = [] then ''/libreoffice-wasm/'' else p"
    let ?st1 = "st\<lparr> objects := (objects st)(?r := new_LibreOfficeConverter bp),
                     next_ref := Suc ?r, converterInstance := Some ?r \<rparr>"
    let ?st2 = "?st1\<lparr>objects := (objects ?st1)(?r := call_method m (objects ?st1 ?r))\<rparr>"
    have get: "getLibreOfficeConverter bp st = (?r, ?st1)"
      using Cons.prems(1) by (rule getter_first_call)
    have p1: "basePath (objects ?st1 ?r) = ?p"
      by (simp add: new_LibreOfficeConverter_def LIBREOFFICE_PATH_def split: option.splits)
    obtain outs2 where rest: "run_requests rs ?st2 = (outs2, st')" and outs: "outs = (bp, ?r, ?p) # outs2"
      using Cons.prems(2) Request get p1 by (auto simp: Let_def split: prod.splits)
    have "converterInstance ?st2 = Some ?r" by simp
    moreover have "basePath (objects ?st2 ?r) = ?p" using p1 by (simp add: basePath_call_method)
    ultimately have "\<forall>out\<in>set outs2. snd out = (?r, ?p)"
      using rest run_requests_shared[of ?st2 ?r ?p rs outs2 st'] by blast
    then show ?thesis using outs by simp
  next
    case (Process env cf files)
    show ?thesis
    proof (cases "validated files")
      case None
      then obtain out where "process env cf files st = Some (out, st, [])"
        using process_not_validated by blast
      then have "run_requests rs st = (outs, st')"
        using Cons.prems(2) Process None by simp
      then show ?thesis using Cons.prems(1) Cons.IH by blast
    next
      case (Some f)
      let ?p = "''/libreoffice-wasm/''"
      let ?st1 = "st\<lparr> objects := (objects st)(?r := new_LibreOfficeConverter None),
                       next_ref := Suc ?r, converterInstance := Some ?r \<rparr>"
      let ?st2 = "case process env cf files st of None \<Rightarrow> ?st1 | Some (out, st1, tr) \<Rightarrow> st1"
      have get: "getLibreOfficeConverter None st = (?r, ?st1)"
        using Cons.prems(1) by (rule getter_first_call)
      have p1: "basePath (objects ?st1 ?r) = ?p"
        by (simp add: new_LibreOfficeConverter_def LIBREOFFICE_PATH_def)
      obtain outs2 where rest: "run_requests rs ?st2 = (outs2, st')" and outs: "outs = (None, ?r, ?p) # outs2"
        using Cons.prems(2) Process Some get p1 by (auto simp: Let_def split: prod.splits)
      have "converterInstance ?st2 = Some ?r \<and> basePath (objects ?st2 ?r) = ?p"
      proof (cases "process env cf files st")
        case None
        then show ?thesis using p1 by simp
      next
        case (Some a)
        obtain out st1 tr where a: "a = (out, st1, tr)" by (cases a)
        have "process_try env cf f st = Some (out, st1, tr)"
          using Some a process_validated[OF \<open>validated files = Some f\<close>, of env cf st] by simp
        then show ?thesis
          using process_try_keeps_instance[OF get p1] Some a by simp
      qed
      then have "\<forall>out\<in>set outs2. snd out = (?r, ?p)"
        using rest run_requests_shared[of ?st2 ?r ?p rs outs2 st'] by blast
      then show ?thesis using outs by simp
    qed
  qed
qed

theorem singleton_is_shared_witness:
  "converterInstance fresh_module = None \<and>
   fst (run_requests
          [Request (Some ''/other/'') (Initialize example_env None),
           Request (Some ''/third/'') (Convert example_env (example_file ''a.csv'') ''pdf''),
           Process example_env no_cancel [example_file ''b.ods''],
           Request None (Destroy example_env),
           Request (Some ''/x/'') No_call] fresh_module) =
     [(Some ''/other/'', 0, ''/other/''), (Some ''/third/'', 0, ''/other/''),
      (None, 0, ''/other/''), (None, 0, ''/other/''), (Some ''/x/'', 0, ''/other/'')] \<and>
   fst (run_requests
          [Process example_env no_cancel [example_file ''notes.txt''],
           Process example_env no_cancel [example_file ''b.ods''],
           Request (Some ''/x/'') (Initialize example_env None),
           Process example_env no_cancel [example_file ''c.csv'']] fresh_module) =
     [(None, 0, ''/libreoffice-wasm/''), (Some ''/x/'', 0, ''/libreoffice-wasm/''),
      (None, 0, ''/libreoffice-wasm/'')]"
proof -
  let ?run1 = "run_requests
          [Request (Some ''/other/'') (Initialize example_env None),
           Request (Some ''/third/'') (Convert example_env (example_file ''a.csv'') ''pdf''),
           Process example_env no_cancel [example_file ''b.ods''],
           Request None (Destroy example_env),
           Request (Some ''/x/'') No_call] fresh_module"
  let ?run2 = "run_requests
          [Process example_env no_cancel [example_file ''notes.txt''],
           Process example_env no_cancel [example_file ''b.ods''],
           Request (Some ''/x/'') (Initialize example_env None),
           Process example_env no_cancel [example_file ''c.csv'']] fresh_module"
  have fresh: "converterInstance fresh_module = None" and nxt: "next_ref fresh_module = 0"
    by (simp_all add: fresh_module_def)
  obtain outs1 st1 where run1: "?run1 = (outs1, st1)" by (cases ?run1)
  obtain outs2 st2 where run2: "?run2 = (outs2, st2)" by (cases ?run2)
  have args1: "map fst (fst ?run1) = [Some ''/other/'', Some ''/third/'', None, None, Some ''/x/'']"
    by code_simp
  have args2: "map fst (fst ?run2) = [None, Some ''/x/'', None]"
    by code_simp
  have a1: "map fst outs1 = [Some ''/other/'', Some ''/third/'', None, None, Some ''/x/'']"
    using args1 run1 by simp
  have a2: "map fst outs2 = [None, Some ''/x/'', None]"
    using args2 run2 by simp
  have h1: "fst (hd outs1) = Some ''/other/''" using a1 by (cases outs1) auto
  have h2: "fst (hd outs2) = None" using a2 by (cases outs2) auto
  have s1: "\<forall>out\<in>set outs1. snd out = (0, ''/other/'')"
    using singleton_is_shared [OF fresh run1] by (simp add: h1 nxt)
  have s2: "\<forall>out\<in>set outs2. snd out = (0, ''/libreoffice-wasm/'')"
    using singleton_is_shared [OF fresh run2] by (simp add: h2 nxt)
  have "outs1 = [(Some ''/other/'', 0, ''/other/''), (Some ''/third/'', 0, ''/other/''),
      (None, 0, ''/other/''), (None, 0, ''/other/''), (Some ''/x/'', 0, ''/other/'')]"
    using a1 s1 by (auto simp: map_eq_Cons_conv)
  moreover have "outs2 = [(None, 0, ''/libreoffice-wasm/''), (Some ''/x/'', 0, ''/libreoffice-wasm/''),
      (None, 0, ''/libreoffice-wasm/'')]"
    using a2 s2 by (auto simp: map_eq_Cons_conv)
  ultimately show ?thesis using fresh run1 run2 by simp
qed

subsection \<open>Asset probes\<close>

lemma probe_files_first_failure:
  assumes "\<forall>g\<in>set pre. \<exists>r. fetch_head env (bp @ g) = Inr r \<and> ok r"
    and "fetch_head env (bp @ f) = Inr res" and "\<not> ok res"
  shows "probe_files env bp (pre @ f # post) =
           (Inl (new_Error (''Required file '' @ f @ '' returned HTTP '' @ decimal (status res))),
            map (\<lambda>g. Fetch_head (bp @ g)) (pre @ [f]))"
  using assms
proof (induction pre)
  case Nil
  then show ?case by simp
next
  case (Cons g gs)
  then obtain r where "fetch_head env (bp @ g) = Inr r" "ok r" by auto
  moreover have "probe_files env bp (gs @ f # post) =
           (Inl (new_Error (''Required file '' @ f @ '' returned HTTP '' @ decimal (status res))),
            map (\<lambda>g. Fetch_head (bp @ g)) (gs @ [f]))"
    using Cons by simp
  ultimately show ?case by simp
qed

text \<open>
  C6. \<open>initialize\<close> on a handle that is neither initialized nor initializing, in an
  isolated browser: if the probes of the asset files before \<open>f\<close> in the list all succeed
  and the probe of \<open>f\<close> returns a response that is not \<open>ok\<close>, then \<open>initialize\<close> fails
  with the error \<open>Required file f returned HTTP status\<close>; the only requests made are
  those for the files up to and including \<open>f\<close>, in order, so none of the later files is
  probed and the engine is not constructed; and the handle is returned as it was, with
  \<open>initialized\<close> false and \<open>initializing\<close> cleared.
\<close>

theorem initialize_fails_at_first_missing_asset:
  assumes "\<not> initialized h" and "\<not> initializing h"
    and "crossOriginIsolated env" and "hasSharedArrayBuffer env"
    and "asset_files = pre @ f # post"
    and "\<forall>g\<in>set pre. \<exists>r. fetch_head env (basePath h @ g) = Inr r \<and> ok r"
    and "fetch_head env (basePath h @ f) = Inr res" and "\<not> ok res"
  shows "initialize env cb h =
           Some (Inl (new_Error (''Required file '' @ f @ '' returned HTTP '' @ decimal (status res))),
                 h,
                 call_progress cb \<lparr> phase = ''loading'', percent = 0, message = ''Checking environment...'' \<rparr>
                 @ map (\<lambda>g. Fetch_head (basePath h @ g)) (pre @ [f]))"
proof -
  have probe: "probe_files env (basePath h) asset_files =
           (Inl (new_Error (''Required file '' @ f @ '' returned HTTP '' @ decimal (status res))),
            map (\<lambda>g. Fetch_head (basePath h @ g)) (pre @ [f]))"
    unfolding assms(5) using assms(6-8) by (rule probe_files_first_failure)
  have same: "h\<lparr>initializing := True\<rparr>\<lparr>initializing := False\<rparr> = h"
    using assms(2) by simp
  show ?thesis
    using assms(1-4) probe same
    by (simp add: initialize_def initialize_body_def checkEnvironment_def)
qed

theorem initialize_fails_at_first_missing_asset_witness:
  "\<not> initialized (new_LibreOfficeConverter None) \<and>
   initialize missing_asset_env None (new_LibreOfficeConverter None) =
     Some (Inl (JsError ''Error'' ''Required file soffice.js returned HTTP 404''),
           new_LibreOfficeConverter None,
           [Fetch_head ''/libreoffice-wasm/soffice.wasm'', Fetch_head ''/libreoffice-wasm/soffice.data'',
            Fetch_head ''/libreoffice-wasm/soffice.js''])"
proof -
  let ?h = "new_LibreOfficeConverter None"
  let ?res = "\<lparr> ok = False, status = 404 \<rparr>"
  have bp: "basePath ?h = ''/libreoffice-wasm/''"
    by (simp add: new_LibreOfficeConverter_def LIBREOFFICE_PATH_def)
  have h1: "\<not> initialized ?h" and h2: "\<not> initializing ?h"
    by (simp_all add: new_LibreOfficeConverter_def)
  have e1: "crossOriginIsolated missing_asset_env" and e2: "hasSharedArrayBuffer missing_asset_env"
    by (simp_all add: missing_asset_env_def example_env_def)
  have files: "asset_files = [''soffice.wasm'', ''soffice.data''] @ ''soffice.js'' # [''soffice.worker.js'', ''browser.worker.global.js'']"
    by (simp add: asset_files_def)
  have pre: "\<forall>g\<in>set [''soffice.wasm'', ''soffice.data'']. \<exists>r. fetch_head missing_asset_env (basePath ?h @ g) = Inr r \<and> ok r"
    by (simp add: bp missing_asset_env_def example_env_def)
  have bad: "fetch_head missing_asset_env (basePath ?h @ ''soffice.js'') = Inr ?res"
    by (simp add: bp missing_asset_env_def example_env_def)
  have nok: "\<not> ok ?res" by simp
  have num: "decimal (status ?res) = ''404''" by code_simp
  show ?thesis
    using h1 initialize_fails_at_first_missing_asset [OF h1 h2 e1 e2 files pre bad nok, of None, unfolded num]
    by (simp add: bp new_Error_def call_progress_def)
qed

subsection \<open>A conversion that throws\<close>

text \<open>
  C5, as amended. \<open>process\<close> on one valid file, initialization having returned normally
  with handle \<open>h1\<close>, no cancellation seen, and the engine reference present: if the
  engine's \<open>convert\<close> throws, whatever the value thrown, then \<open>convert\<close> rethrows it and
  leaves the handle as it was, and \<open>process\<close> returns the failure \<open>PROCESSING_FAILED\<close>,
  having reported 85% and made that one call and nothing after it; the shared instance
  is still \<open>h1\<close>, so it is ready if it was, and then the next \<open>initialize\<close> returns at
  once without any effect. The detail of the failure is the message of the value thrown
  when that is an \<open>Error\<close>, and \<open>Unknown error\<close> when it is anything else.
\<close>

theorem engine_failure_keeps_engine_ready:
  assumes "ext_of (file_name file) \<in> set validExts"
    and "getLibreOfficeConverter None st = (r, st1)"
    and "initialize env (Some init_progress) (objects st1 r) = Some (Inr (), h1, tr1)"
    and "\<not> cancelled_after_init cf"
    and "converter h1 = Some c"
    and "engine_convert env (file_bytes file) ''pdf'' (ext_of (file_name file)) (file_name file) = Inl e"
  shows "convert env file ''pdf'' h1 =
           (Inl e, h1,
            [Engine_convert (file_bytes file) ''pdf'' (ext_of (file_name file)) (file_name file)]) \<and>
         (\<exists>st'.
            process env cf [file] st =
              Some (Error_output PROCESSING_FAILED ''Failed to convert Excel to PDF.''
                      (Some (case e of JsError n m \<Rightarrow> m | JsOther s \<Rightarrow> ''Unknown error'')),
                    st',
                    Progress 5 ''Loading conversion engine (first time may take 1-2 minutes)...'' # tr1 @
                    [Progress 85 ''Converting Excel to PDF...'',
                     Engine_convert (file_bytes file) ''pdf'' (ext_of (file_name file)) (file_name file)]) \<and>
            converterInstance st' = Some r \<and>
            objects st' r = h1 \<and>
            isReady (objects st' r) = isReady h1 \<and>
            (initialized h1 \<longrightarrow>
               initialize env2 cb2 (objects st' r) = Some (Inr (), objects st' r, [])))"
proof -
  have conv: "convert env file ''pdf'' h1 =
           (Inl e, h1,
            [Engine_convert (file_bytes file) ''pdf'' (ext_of (file_name file)) (file_name file)])"
    using assms(5,6) by (simp add: convert_def)
  have inst: "converterInstance st1 = Some r"
    using assms(2) by (auto simp: getLibreOfficeConverter_def Let_def split: option.splits)
  show ?thesis
    using assms(1-4) conv inst
    by (simp add: process_def process_try_def convertToPdf_def conversion_error_def
          createErrorOutput_def initialize_def updateProgress_def)
qed

theorem engine_failure_keeps_engine_ready_witness:
  "ext_of (file_name (example_file ''a.xlsx'')) \<in> set validExts \<and>
   (\<exists>st' tr.
      process failing_convert_env no_cancel [example_file ''a.xlsx''] fresh_module =
        Some (Error_output PROCESSING_FAILED ''Failed to convert Excel to PDF.''
                (Some ''Document is corrupt''), st', tr) \<and>
      converterInstance st' = Some 0 \<and>
      isReady (objects st' 0) \<and>
      initialize example_env None (objects st' 0) = Some (Inr (), objects st' 0, [])) \<and>
   (\<exists>st' tr.
      process throwing_string_env no_cancel [example_file ''a.xlsx''] fresh_module =
        Some (Error_output PROCESSING_FAILED ''Failed to convert Excel to PDF.''
                (Some ''Unknown error''), st', tr) \<and>
      converterInstance st' = Some 0 \<and>
      isReady (objects st' 0) \<and>
      initialize example_env None (objects st' 0) = Some (Inr (), objects st' 0, []))"
proof -
  let ?file = "example_file ''a.xlsx''"
  let ?h1 = "\<lparr> converter = Some (new_WorkerBrowserConverter LIBREOFFICE_PATH), initialized = True,
               initializing = False, basePath = LIBREOFFICE_PATH \<rparr>"
  have v: "ext_of (file_name ?file) \<in> set validExts" by code_simp
  obtain st1 where get: "getLibreOfficeConverter None fresh_module = (0, st1)"
    and obj: "objects st1 0 = new_LibreOfficeConverter None"
    by (simp add: getLibreOfficeConverter_def fresh_module_def)
  have "map_option (\<lambda>r. (fst r, fst (snd r)))
          (initialize failing_convert_env (Some init_progress) (new_LibreOfficeConverter None)) =
        Some (Inr (), ?h1)"
    by code_simp
  then obtain tr1 where init1:
    "initialize failing_convert_env (Some init_progress) (objects st1 0) = Some (Inr (), ?h1, tr1)"
    unfolding obj
    by (cases "initialize failing_convert_env (Some init_progress) (new_LibreOfficeConverter None)") auto
  have "map_option (\<lambda>r. (fst r, fst (snd r)))
          (initialize throwing_string_env (Some init_progress) (new_LibreOfficeConverter None)) =
        Some (Inr (), ?h1)"
    by code_simp
  then obtain tr2 where init2:
    "initialize throwing_string_env (Some init_progress) (objects st1 0) = Some (Inr (), ?h1, tr2)"
    unfolding obj
    by (cases "initialize throwing_string_env (Some init_progress) (new_LibreOfficeConverter None)") auto
  have nc: "\<not> cancelled_after_init no_cancel" by (simp add: no_cancel_def)
  have c: "converter ?h1 = Some (new_WorkerBrowserConverter LIBREOFFICE_PATH)" by simp
  have thrown1: "engine_convert failing_convert_env (file_bytes ?file) ''pdf'' (ext_of (file_name ?file))
                  (file_name ?file) = Inl (JsError ''Error'' ''Document is corrupt'')"
    by (simp add: failing_convert_env_def example_env_def)
  have thrown2: "engine_convert throwing_string_env (file_bytes ?file) ''pdf'' (ext_of (file_name ?file))
                  (file_name ?file) = Inl (JsOther ''worker crashed'')"
    by (simp add: throwing_string_env_def example_env_def)
  have ready: "isReady ?h1" and started: "initialized ?h1" by (simp_all add: isReady_def)
  have first: "\<exists>st' tr.
      process failing_convert_env no_cancel [?file] fresh_module =
        Some (Error_output PROCESSING_FAILED ''Failed to convert Excel to PDF.''
                (Some ''Document is corrupt''), st', tr) \<and>
      converterInstance st' = Some 0 \<and>
      isReady (objects st' 0) \<and>
      initialize example_env None (objects st' 0) = Some (Inr (), objects st' 0, [])"
    using ready started
      engine_failure_keeps_engine_ready [OF v get init1 nc c thrown1, of example_env None]
    by auto
  have second: "\<exists>st' tr.
      process throwing_string_env no_cancel [?file] fresh_module =
        Some (Error_output PROCESSING_FAILED ''Failed to convert Excel to PDF.''
                (Some ''Unknown error''), st', tr) \<and>
      converterInstance st' = Some 0 \<and>
      isReady (objects st' 0) \<and>
      initialize example_env None (objects st' 0) = Some (Inr (), objects st' 0, [])"
    using ready started
      engine_failure_keeps_engine_ready [OF v get init2 nc c thrown2, of example_env None]
    by auto
  from v first second show ?thesis by blast
qed

text \<open>
  C5 as stated fails on the detail. When the engine's \<open>convert\<close> throws a value that is
  not an \<open>Error\<close>, here the string \<open>worker crashed\<close>, the failure carries \<open>Unknown error\<close>
  and nothing of what was thrown.
\<close>

theorem thrown_string_loses_its_message:
  "map_sum to_string id (engine_convert throwing_string_env [80, 75, 3, 4] ''pdf'' ''xlsx'' ''a.xlsx'') =
     Inl ''worker crashed'' \<and>
   map_option fst (process throwing_string_env no_cancel [example_file ''a.xlsx''] fresh_module) =
     Some (Error_output PROCESSING_FAILED ''Failed to convert Excel to PDF.'' (Some ''Unknown error''))"
  by code_simp

text \<open>Without an engine reference, \<open>convert\<close> fails before it calls anything.\<close>

lemma convert_without_engine_reference:
  "converter h = None \<Longrightarrow>
   convert env file fmt h = (Inl (new_Error ''Converter not initialized''), h, [])"
  by (simp add: convert_def)

text \<open>
  C2, evaluated where it fails. A startup of the engine that throws makes \<open>initialize\<close>
  fail and leaves the engine reference set and \<open>initialized\<close> false, so \<open>isReady\<close> is
  false; \<open>convert\<close> tests the reference only, and on the handle so left it calls the
  engine's \<open>convert\<close> and returns its result instead of failing.
\<close>

theorem convert_reaches_engine_when_not_ready:
  "map_option
       (\<lambda>r. (fst r, isReady (fst (snd r)),
             convert example_env (example_file ''a.xlsx'') ''pdf'' (fst (snd r))))
       (initialize failing_startup_env None (new_LibreOfficeConverter None)) =
     Some (Inl (JsError ''Error'' ''WASM load timeout''),
           False,
           (Inr \<lparr> blob_data = [37, 80, 68, 70], blob_type = ''application/pdf'' \<rparr>,
            \<lparr> converter = Some (new_WorkerBrowserConverter LIBREOFFICE_PATH), initialized = False,
              initializing = False, basePath = LIBREOFFICE_PATH \<rparr>,
            [Engine_convert [80, 75, 3, 4] ''pdf'' ''xlsx'' ''a.xlsx'']))"
  by code_simp

subsection \<open>Cancellation\<close>

lemma no_convert_init_progress: "filter is_convert_call (call_progress (Some init_progress) p) = []"
  by (simp add: call_progress_def init_progress_def updateProgress_def)

lemma no_convert_relay: "filter is_convert_call (concat (map (relay (Some init_progress) h) ps)) = []"
  by (induction ps) (simp_all add: relay_def no_convert_init_progress)

lemma no_convert_probe_files: "filter is_convert_call (snd (probe_files env bp fs)) = []"
  by (induction fs)
     (auto simp: Let_def split: sum.splits js_value.splits prod.splits)

lemma no_convert_checkEnvironment: "filter is_convert_call (snd (checkEnvironment env bp)) = []"
  by (simp add: checkEnvironment_def no_convert_probe_files)

lemma no_convert_initialize_body:
  "filter is_convert_call (snd (snd (initialize_body env (Some init_progress) h))) = []"
proof (cases "checkEnvironment env (basePath h)")
  case (Pair res tr1)
  then have tr1: "filter is_convert_call tr1 = []"
    using no_convert_checkEnvironment[of env "basePath h"] by simp
  show ?thesis
    using Pair tr1
    by (cases res; cases "engine_initialize env")
       (simp_all add: initialize_body_def Let_def no_convert_init_progress no_convert_relay)
qed

lemma convert_calls_initialize:
  "initialize env (Some init_progress) h = Some (res, h', tr) \<Longrightarrow> convert_calls tr = []"
  using no_convert_initialize_body[of env "h\<lparr>initializing := True\<rparr>"]
  by (auto simp: initialize_def convert_calls_def split: if_splits option.splits)

text \<open>
  C3, as amended. \<open>process\<close> on one valid file, initialization having returned normally:
  it reads the cancellation flag when \<open>initialize\<close> has returned and, if the conversion
  returned normally, once more after it. If the flag is set at the first reading,
  \<open>process\<close> returns \<open>PROCESSING_CANCELLED\<close> at once: its trace is the report of 5% and
  what \<open>initialize\<close> did, nothing more, and holds no call of the engine's \<open>convert\<close>.
  If the flag is set at the second reading only, \<open>process\<close> returns
  \<open>PROCESSING_CANCELLED\<close> at once as well: its trace ends with the report of 85% and the
  one call of the engine's \<open>convert\<close>, whose result is dropped, and 100% is not
  reported. In both cases the shared handle is the one \<open>initialize\<close> left.
\<close>

theorem process_cancellation_checkpoints:
  assumes "ext_of (file_name file) \<in> set validExts"
    and "getLibreOfficeConverter None st = (r, st1)"
    and "initialize env (Some init_progress) (objects st1 r) = Some (Inr (), h1, tr1)"
  shows "(cancelled_after_init cf \<longrightarrow>
            process env cf [file] st =
              Some (Error_output PROCESSING_CANCELLED ''Processing was cancelled.'' None,
                    st1\<lparr>objects := (objects st1)(r := h1)\<rparr>,
                    Progress 5 ''Loading conversion engine (first time may take 1-2 minutes)...'' # tr1) \<and>
            convert_calls
              (Progress 5 ''Loading conversion engine (first time may take 1-2 minutes)...'' # tr1) = []) \<and>
         (\<not> cancelled_after_init cf \<and> cancelled_after_convert cf \<and>
          convertToPdf env file h1 = (Inr b, h2, tr3) \<longrightarrow>
            process env cf [file] st =
              Some (Error_output PROCESSING_CANCELLED ''Processing was cancelled.'' None,
                    st1\<lparr>objects := (objects st1)(r := h1)\<rparr>,
                    Progress 5 ''Loading conversion engine (first time may take 1-2 minutes)...'' # tr1 @
                    [Progress 85 ''Converting Excel to PDF...'',
                     Engine_convert (file_bytes file) ''pdf'' (ext_of (file_name file)) (file_name file)]) \<and>
            h2 = h1 \<and>
            tr3 = [Engine_convert (file_bytes file) ''pdf'' (ext_of (file_name file)) (file_name file)])"
proof (intro conjI impI)
  assume c: "cancelled_after_init cf"
  show "process env cf [file] st =
          Some (Error_output PROCESSING_CANCELLED ''Processing was cancelled.'' None,
                st1\<lparr>objects := (objects st1)(r := h1)\<rparr>,
                Progress 5 ''Loading conversion engine (first time may take 1-2 minutes)...'' # tr1)"
    using assms c
    by (simp add: process_def process_try_def cancelled_output_def createErrorOutput_def
          updateProgress_def)
  have "convert_calls tr1 = []" using assms(3) by (rule convert_calls_initialize)
  then show "convert_calls
          (Progress 5 ''Loading conversion engine (first time may take 1-2 minutes)...'' # tr1) = []"
    by (simp add: convert_calls_def)
next
  assume a: "\<not> cancelled_after_init cf \<and> cancelled_after_convert cf \<and>
             convertToPdf env file h1 = (Inr b, h2, tr3)"
  then have conv: "convertToPdf env file h1 = (Inr b, h2, tr3)" by blast
  then show h2: "h2 = h1"
    by (auto simp: convertToPdf_def convert_def Let_def split: option.splits sum.splits)
  from conv show tr3: "tr3 = [Engine_convert (file_bytes file) ''pdf'' (ext_of (file_name file)) (file_name file)]"
    by (auto simp: convertToPdf_def convert_def Let_def split: option.splits sum.splits)
  show "process env cf [file] st =
          Some (Error_output PROCESSING_CANCELLED ''Processing was cancelled.'' None,
                st1\<lparr>objects := (objects st1)(r := h1)\<rparr>,
                Progress 5 ''Loading conversion engine (first time may take 1-2 minutes)...'' # tr1 @
                [Progress 85 ''Converting Excel to PDF...'',
                 Engine_convert (file_bytes file) ''pdf'' (ext_of (file_name file)) (file_name file)])"
    using assms a conv h2 tr3
    by (simp add: process_def process_try_def cancelled_output_def createErrorOutput_def Let_def
          updateProgress_def)
qed

theorem process_cancellation_checkpoints_witness:
  "ext_of (file_name (example_file ''a.xlsx'')) \<in> set validExts \<and>
   cancelled_after_init cancelled_during_init \<and>
   (\<exists>st'. process example_env cancelled_during_init [example_file ''a.xlsx''] fresh_module =
        Some (Error_output PROCESSING_CANCELLED ''Processing was cancelled.'' None, st',
              [Progress 5 ''Loading conversion engine (first time may take 1-2 minutes)...'',
               Progress 0 ''Checking environment...'',
               Fetch_head ''/libreoffice-wasm/soffice.wasm'', Fetch_head ''/libreoffice-wasm/soffice.data'',
               Fetch_head ''/libreoffice-wasm/soffice.js'', Fetch_head ''/libreoffice-wasm/soffice.worker.js'',
               Fetch_head ''/libreoffice-wasm/browser.worker.global.js'',
               Progress 4 ''Loading conversion engine...'',
               Engine_construct (new_WorkerBrowserConverter ''/libreoffice-wasm/''), Engine_initialize,
               Progress 80 ''Conversion engine ready!''])) \<and>
   cancelled_after_convert cancelled_during_convert \<and>
   (\<exists>st'. process example_env cancelled_during_convert [example_file ''a.xlsx''] fresh_module =
        Some (Error_output PROCESSING_CANCELLED ''Processing was cancelled.'' None, st',
              [Progress 5 ''Loading conversion engine (first time may take 1-2 minutes)...'',
               Progress 0 ''Checking environment...'',
               Fetch_head ''/libreoffice-wasm/soffice.wasm'', Fetch_head ''/libreoffice-wasm/soffice.data'',
               Fetch_head ''/libreoffice-wasm/soffice.js'', Fetch_head ''/libreoffice-wasm/soffice.worker.js'',
               Fetch_head ''/libreoffice-wasm/browser.worker.global.js'',
               Progress 4 ''Loading conversion engine...'',
               Engine_construct (new_WorkerBrowserConverter ''/libreoffice-wasm/''), Engine_initialize,
               Progress 80 ''Conversion engine ready!'',
               Progress 85 ''Converting Excel to PDF...'',
               Engine_convert [80, 75, 3, 4] ''pdf'' ''xlsx'' ''a.xlsx'']))"
proof -
  let ?file = "example_file ''a.xlsx''"
  let ?h1 = "\<lparr> converter = Some (new_WorkerBrowserConverter ''/libreoffice-wasm/''), initialized = True,
               initializing = False, basePath = ''/libreoffice-wasm/'' \<rparr>"
  let ?tr1 = "[Progress 0 ''Checking environment...'',
               Fetch_head ''/libreoffice-wasm/soffice.wasm'', Fetch_head ''/libreoffice-wasm/soffice.data'',
               Fetch_head ''/libreoffice-wasm/soffice.js'', Fetch_head ''/libreoffice-wasm/soffice.worker.js'',
               Fetch_head ''/libreoffice-wasm/browser.worker.global.js'',
               Progress 4 ''Loading conversion engine...'',
               Engine_construct (new_WorkerBrowserConverter ''/libreoffice-wasm/''), Engine_initialize,
               Progress 80 ''Conversion engine ready!'']"
  have v: "ext_of (file_name ?file) \<in> set validExts" by code_simp
  have ext: "ext_of (file_name ?file) = ''xlsx''" by code_simp
  have name_ext: "ext_of ''a.xlsx'' = ''xlsx''" by code_simp
  obtain st1 where get: "getLibreOfficeConverter None fresh_module = (0, st1)"
    and obj: "objects st1 0 = new_LibreOfficeConverter None"
    by (simp add: getLibreOfficeConverter_def fresh_module_def)
  have "initialize example_env (Some init_progress) (new_LibreOfficeConverter None) =
          Some (Inr (), ?h1, ?tr1)"
    by code_simp
  then have init: "initialize example_env (Some init_progress) (objects st1 0) = Some (Inr (), ?h1, ?tr1)"
    unfolding obj .
  have c1: "cancelled_after_init cancelled_during_init"
    by (simp add: cancelled_during_init_def)
  have c2: "\<not> cancelled_after_init cancelled_during_convert"
    and c3: "cancelled_after_convert cancelled_during_convert"
    by (simp_all add: cancelled_during_convert_def)
  have conv: "convertToPdf example_env ?file ?h1 =
                (Inr (new_Blob [37, 80, 68, 70] ''application/pdf''), ?h1,
                 [Engine_convert [80, 75, 3, 4] ''pdf'' ''xlsx'' ''a.xlsx''])"
    by (simp add: convertToPdf_def convert_def example_env_def example_file_def name_ext)
  from process_cancellation_checkpoints [OF v get init, of cancelled_during_init] c1
  have first: "process example_env cancelled_during_init [?file] fresh_module =
        Some (Error_output PROCESSING_CANCELLED ''Processing was cancelled.'' None,
              st1\<lparr>objects := (objects st1)(0 := ?h1)\<rparr>,
              Progress 5 ''Loading conversion engine (first time may take 1-2 minutes)...'' # ?tr1)"
    by blast
  from process_cancellation_checkpoints [OF v get init, of cancelled_during_convert] c2 c3 conv
  have second: "process example_env cancelled_during_convert [?file] fresh_module =
        Some (Error_output PROCESSING_CANCELLED ''Processing was cancelled.'' None,
              st1\<lparr>objects := (objects st1)(0 := ?h1)\<rparr>,
              Progress 5 ''Loading conversion engine (first time may take 1-2 minutes)...'' # ?tr1 @
              [Progress 85 ''Converting Excel to PDF...'',
               Engine_convert (file_bytes ?file) ''pdf'' (ext_of (file_name ?file)) (file_name ?file)])"
    by blast
  have second': "process example_env cancelled_during_convert [?file] fresh_module =
        Some (Error_output PROCESSING_CANCELLED ''Processing was cancelled.'' None,
              st1\<lparr>objects := (objects st1)(0 := ?h1)\<rparr>,
              Progress 5 ''Loading conversion engine (first time may take 1-2 minutes)...'' # ?tr1 @
              [Progress 85 ''Converting Excel to PDF...'',
               Engine_convert [80, 75, 3, 4] ''pdf'' ''xlsx'' ''a.xlsx''])"
    using second unfolding ext by (simp add: example_file_def)
  show ?thesis
    using v c1 c3 first second' by simp
qed

text \<open>
  C3 as stated fails: there is no reading of the flag before the initialization work.
  With the flag set from before the initialization on, \<open>process\<close> still probes the five
  asset files and has the engine constructed and started before it returns
  \<open>PROCESSING_CANCELLED\<close>.
\<close>

theorem no_checkpoint_before_initialization:
  "cancelled_before_init always_cancelled \<and>
   map_option (\<lambda>r. (fst r, snd (snd r)))
       (process example_env always_cancelled [example_file ''a.xlsx''] fresh_module) =
     Some (Error_output PROCESSING_CANCELLED ''Processing was cancelled.'' None,
           [Progress 5 ''Loading conversion engine (first time may take 1-2 minutes)...'',
            Progress 0 ''Checking environment...'',
            Fetch_head ''/libreoffice-wasm/soffice.wasm'', Fetch_head ''/libreoffice-wasm/soffice.data'',
            Fetch_head ''/libreoffice-wasm/soffice.js'', Fetch_head ''/libreoffice-wasm/soffice.worker.js'',
            Fetch_head ''/libreoffice-wasm/browser.worker.global.js'',
            Progress 4 ''Loading conversion engine...'',
            Engine_construct (new_WorkerBrowserConverter LIBREOFFICE_PATH), Engine_initialize,
            Progress 80 ''Conversion engine ready!''])"
  by code_simp

subsection \<open>Progress\<close>

text \<open>
  What holds of the percent values of a successful call: they end with 85 and 100, and
  all the values before are at most 80; when the shared instance is initialized already,
  they are 5, 85, 100.
\<close>

lemma percents_append: "percents (xs @ ys) = percents xs @ percents ys"
  by (induction xs rule: percents.induct) simp_all

lemma percents_init_progress:
  "\<forall>p\<in>set (percents (call_progress (Some init_progress) lp)). p \<le> 80"
  by (simp add: call_progress_def init_progress_def updateProgress_def)

lemma percents_relay:
  "\<forall>p\<in>set (percents (concat (map (relay (Some init_progress) h) lps))). p \<le> 80"
  using percents_init_progress
  by (induction lps) (auto simp: percents_append relay_def)

lemma percents_probe_files: "percents (snd (probe_files env bp fs)) = []"
  by (induction fs)
     (auto simp: Let_def split: sum.splits js_value.splits prod.splits)

lemma percents_checkEnvironment: "percents (snd (checkEnvironment env bp)) = []"
  by (simp add: checkEnvironment_def percents_probe_files)

lemma percents_initialize_body:
  "\<forall>p\<in>set (percents (snd (snd (initialize_body env (Some init_progress) h)))). p \<le> 80"
proof (cases "checkEnvironment env (basePath h)")
  case (Pair res tr1)
  then have tr1: "percents tr1 = []"
    using percents_checkEnvironment[of env "basePath h"] by simp
  show ?thesis
    using Pair tr1 percents_init_progress percents_relay
    by (cases res; cases "engine_initialize env")
       (auto simp: initialize_body_def Let_def percents_append)
qed

lemma percents_initialize:
  "initialize env (Some init_progress) h = Some (res, h', tr) \<Longrightarrow> \<forall>p\<in>set (percents tr). p \<le> 80"
  using percents_initialize_body[of env "h\<lparr>initializing := True\<rparr>"]
  by (auto simp: initialize_def split: if_splits option.splits)

lemma percents_convert: "percents (snd (snd (convert env file fmt h))) = []"
  by (simp add: convert_def Let_def split: option.splits sum.splits)

lemma process_progress_tail:
  assumes "process env cf [file] st = Some (Success_output b fname fmt, st', tr)"
  shows "\<exists>ps. percents tr = ps @ [85, 100] \<and> (\<forall>p\<in>set ps. p \<le> 80)"
proof -
  obtain r st1 where get: "getLibreOfficeConverter None st = (r, st1)"
    by (cases "getLibreOfficeConverter None st")
  have run: "process_try env cf file st = Some (Success_output b fname fmt, st', tr)"
    using assms by (simp add: process_def createErrorOutput_def split: if_splits)
  obtain h1 tr1 where
    init: "initialize env (Some init_progress) (objects st1 r) = Some (Inr (), h1, tr1)"
  proof (cases "initialize env (Some init_progress) (objects st1 r)")
    case None
    then show ?thesis using run get by (simp add: process_try_def)
  next
    case (Some a)
    obtain res h1 tr1 where a: "a = (res, h1, tr1)" by (cases a)
    show ?thesis
    proof (cases res)
      case (Inl e)
      then show ?thesis using run get Some a
        by (simp add: process_try_def conversion_error_def createErrorOutput_def)
    next
      case (Inr u)
      then show ?thesis using that Some a by simp
    qed
  qed
  obtain c h2 tr3 where conv: "convertToPdf env file h1 = (c, h2, tr3)"
    by (cases "convertToPdf env file h1")
  have tr3: "percents tr3 = []"
    using conv percents_convert[of env "file" "''pdf''" h1] by (simp add: convertToPdf_def)
  have tr: "tr = updateProgress 5 ''Loading conversion engine (first time may take 1-2 minutes)...'' @ tr1 @
                 updateProgress 85 ''Converting Excel to PDF...'' @ tr3 @
                 updateProgress 100 ''Conversion complete!''"
    using run get init conv
    by (auto simp: process_try_def conversion_error_def createErrorOutput_def
          cancelled_output_def createSuccessOutput_def Let_def
        split: if_splits sum.splits)
  have "percents tr = (5 # percents tr1) @ [85, 100]"
    unfolding tr by (simp add: percents_append tr3 updateProgress_def)
  moreover have "\<forall>p\<in>set (5 # percents tr1). p \<le> 80"
    using percents_initialize[OF init] by simp
  ultimately show ?thesis by blast
qed

lemma process_progress_when_initialized:
  assumes "process env cf [file] st = Some (Success_output b fname fmt, st', tr)"
    and "converterInstance st = Some r" and "initialized (objects st r)"
  shows "percents tr = [5, 85, 100]"
proof -
  have get: "getLibreOfficeConverter None st = (r, st)"
    using assms(2) by (simp add: getLibreOfficeConverter_def)
  have init: "initialize env (Some init_progress) (objects st r) = Some (Inr (), objects st r, [])"
    using assms(3) by (simp add: initialize_def)
  obtain c h2 tr3 where conv: "convertToPdf env file (objects st r) = (c, h2, tr3)"
    by (cases "convertToPdf env file (objects st r)")
  have tr3: "percents tr3 = []"
    using conv percents_convert[of env "file" "''pdf''" "objects st r"] by (simp add: convertToPdf_def)
  have "tr = updateProgress 5 ''Loading conversion engine (first time may take 1-2 minutes)...'' @
                 updateProgress 85 ''Converting Excel to PDF...'' @ tr3 @
                 updateProgress 100 ''Conversion complete!''"
    using assms(1) get init conv
    by (auto simp: process_def process_try_def conversion_error_def createErrorOutput_def
          cancelled_output_def createSuccessOutput_def Let_def
        split: if_splits sum.splits)
  then show ?thesis by (simp add: percents_append tr3 updateProgress_def)
qed

text \<open>
  C1, evaluated where it fails. On a first call, with an engine that reports nothing
  during its startup, the call succeeds and the percent values delivered are
  5, 0, 4, 80, 85, 100: the 5 of \<open>process\<close> is followed by the 0 and the 5 of
  \<open>initialize\<close>, scaled by 0.8. The sequence ends at 100 and is not non-decreasing.
\<close>

theorem progress_dips_during_first_initialization:
  "map_option fst (process example_env no_cancel [example_file ''a.xlsx''] fresh_module) =
     Some (Success_output \<lparr> blob_data = [37, 80, 68, 70], blob_type = ''application/pdf'' \<rparr>
             ''a.pdf'' ''pdf'') \<and>
   map_option (\<lambda>r. percents (snd (snd r)))
       (process example_env no_cancel [example_file ''a.xlsx''] fresh_module) =
     Some [5, 0, 4, 80, 85, 100]"
  by code_simp

subsection \<open>Two callers of initialize\<close>

text \<open>
  A second caller that arrives while an initialization is in flight makes no request and
  no call on the engine, and returns normally, whatever the first caller gets.
\<close>

lemma wait_after_in_flight:
  "initializing h \<Longrightarrow> \<not> now_initializing f \<Longrightarrow>
   wait_while_initializing h (replicate k (fields_of h) @ [f]) = Some (with_fields h f)"
proof (induction k)
  case 0
  then show ?case by (simp add: with_fields_def)
next
  case (Suc k)
  have "with_fields h (fields_of h) = h" by (simp add: with_fields_def fields_of_def)
  then show ?case using Suc by simp
qed

lemma initialize_body_clears_flag: "\<not> initializing (fst (snd (initialize_body env cb h)))"
  by (cases "checkEnvironment env (basePath h)")
     (auto simp: initialize_body_def Let_def split: sum.splits option.splits)

lemma waiting_caller_starts_nothing:
  assumes "\<not> initialized h" and "\<not> initializing h"
  shows "\<exists>first h2. concurrent_initialize env cb1 cb2 k h = Some (first, (Inr (), []), h2)"
proof -
  let ?in_flight = "h\<lparr>initializing := True\<rparr>"
  obtain res1 h1 tr1 where body: "initialize_body env cb1 ?in_flight = (res1, h1, tr1)"
    by (cases "initialize_body env cb1 ?in_flight")
  have first: "initialize env cb1 h = Some (res1, h1, tr1)"
    using assms body by (simp add: initialize_def)
  have "\<not> initializing h1" using initialize_body_clears_flag[of env cb1 ?in_flight] body by simp
  then have "\<not> now_initializing (fields_of h1)" by (simp add: fields_of_def)
  then have "wait_while_initializing ?in_flight (replicate k (fields_of ?in_flight) @ [fields_of h1]) =
               Some (with_fields ?in_flight (fields_of h1))"
    by (intro wait_after_in_flight) simp_all
  then show ?thesis
    using assms first by (simp add: concurrent_initialize_def initialize_def Let_def)
qed

text \<open>
  C4, evaluated where it fails. The asset \<open>soffice.js\<close> is missing, so the first caller's
  \<open>initialize\<close> fails with the error naming it; the second caller, which was polling
  meanwhile, returns normally, without any effect of its own, although the handle is not
  ready: the two callers do not get the same outcome.
\<close>

theorem waiting_caller_succeeds_after_failed_initialization:
  "map_option (\<lambda>r. (fst (fst r), fst (snd r), isReady (snd (snd r))))
       (concurrent_initialize missing_asset_env None None 2 (new_LibreOfficeConverter None)) =
     Some (Inl (JsError ''Error'' ''Required file soffice.js returned HTTP 404''),
           (Inr (), []),
           False)"
  by code_simp

end
